theory Spec2Isabelle
  imports Complex_Main "HOL-Library.Word"
begin

section \<open>Errors raised by the Python code\<close>

datatype py_error = ValueError | IndexError | TypeError | ZeroDivisionError | AttributeError

section \<open>Numbers of a tensor\<close>

text \<open>
  An element of a floating-point tensor is a finite number, an infinity or a NaN. A
  format (the dtype of a tensor) has an overflow threshold and a rounding of the numbers
  inside it: a number at or beyond the threshold becomes an infinity, any other number is
  rounded. For float16 the threshold is 65520. Signed zeros are not told apart.
\<close>

datatype score = Fin real | PosInf | NegInf | NaN

record float_format =
  overflow :: real
  rnd :: "real \<Rightarrow> real"

definition fl :: "float_format \<Rightarrow> real \<Rightarrow> score" where
  "fl fmt x =
     (if overflow fmt \<le> x then PosInf
      else if x \<le> - overflow fmt then NegInf
      else Fin (rnd fmt x))"

definition score_sign :: "score \<Rightarrow> int" where
  "score_sign a =
     (case a of Fin x \<Rightarrow> (if x < 0 then - 1 else if x = 0 then 0 else 1)
              | PosInf \<Rightarrow> 1 | NegInf \<Rightarrow> - 1 | NaN \<Rightarrow> 0)"

definition signed_inf :: "int \<Rightarrow> score" where
  "signed_inf s = (if 0 < s then PosInf else if s < 0 then NegInf else NaN)"

definition score_mul :: "float_format \<Rightarrow> score \<Rightarrow> score \<Rightarrow> score" where
  "score_mul fmt a b =
     (case (a, b) of
        (NaN, _) \<Rightarrow> NaN
      | (_, NaN) \<Rightarrow> NaN
      | (Fin x, Fin y) \<Rightarrow> fl fmt (x * y)
      | _ \<Rightarrow> signed_inf (score_sign a * score_sign b))"

definition score_add :: "float_format \<Rightarrow> score \<Rightarrow> score \<Rightarrow> score" where
  "score_add fmt a b =
     (case (a, b) of
        (NaN, _) \<Rightarrow> NaN
      | (_, NaN) \<Rightarrow> NaN
      | (Fin x, Fin y) \<Rightarrow> fl fmt (x + y)
      | (PosInf, NegInf) \<Rightarrow> NaN
      | (NegInf, PosInf) \<Rightarrow> NaN
      | (PosInf, _) \<Rightarrow> PosInf
      | (_, PosInf) \<Rightarrow> PosInf
      | _ \<Rightarrow> NegInf)"

definition score_div :: "float_format \<Rightarrow> score \<Rightarrow> score \<Rightarrow> score" where
  "score_div fmt a b =
     (case (a, b) of
        (NaN, _) \<Rightarrow> NaN
      | (_, NaN) \<Rightarrow> NaN
      | (Fin x, Fin y) \<Rightarrow> (if y = 0 then signed_inf (score_sign a) else fl fmt (x / y))
      | (Fin x, _) \<Rightarrow> Fin 0
      | (_, Fin y) \<Rightarrow> signed_inf (score_sign a * (if y < 0 then - 1 else 1))
      | _ \<Rightarrow> NaN)"

definition score_sqrt :: "float_format \<Rightarrow> score \<Rightarrow> score" where
  "score_sqrt fmt a =
     (case a of Fin x \<Rightarrow> (if x < 0 then NaN else fl fmt (sqrt x))
              | PosInf \<Rightarrow> PosInf | _ \<Rightarrow> NaN)"

definition score_dot :: "float_format \<Rightarrow> score list \<Rightarrow> score list \<Rightarrow> score" where
  "score_dot fmt a b = foldl (score_add fmt) (Fin 0) (map2 (score_mul fmt) a b)"

text \<open>
  A format with the overflow threshold \<open>t\<close> in which numbers inside the threshold are kept
  as they are: float16 on numbers that float16 represents exactly is
  \<open>unrounded_format 65520\<close>.
\<close>

definition unrounded_format :: "real \<Rightarrow> float_format" where
  "unrounded_format t = \<lparr>overflow = t, rnd = (\<lambda>x. x)\<rparr>"

text \<open>
  The arithmetic of a tensor's element type, as the code uses it: division,
  multiplication, square root, the conversion of a Python number to the element type
  (\<^verbatim>\<open>ops.cast\<close>, and the conversion of a literal), and the inner product of the batched
  matrix product.
\<close>

record 'f arith =
  a_div :: "'f \<Rightarrow> 'f \<Rightarrow> 'f"
  a_mul :: "'f \<Rightarrow> 'f \<Rightarrow> 'f"
  a_sqrt :: "'f \<Rightarrow> 'f"
  a_cast :: "real \<Rightarrow> 'f"
  a_dot :: "'f list \<Rightarrow> 'f list \<Rightarrow> 'f"

definition float_arith :: "float_format \<Rightarrow> score arith" where
  "float_arith fmt =
     \<lparr>a_div = score_div fmt, a_mul = score_mul fmt, a_sqrt = score_sqrt fmt,
      a_cast = fl fmt, a_dot = score_dot fmt\<rparr>"

section \<open>Configuration and tensors\<close>

text \<open>
  The configuration fields the modelled code reads.
\<close>

record chatglm_config =
  num_layers :: nat
  pre_seq_len :: "nat option"
  position_encoding_2d :: bool
  bos_token_id :: int
  mask_token_id :: int
  gmask_token_id :: int

text \<open>
  The size of the last axis of a two-axis tensor given as a list of rows (0 for a
  tensor without rows).
\<close>

definition last_dim :: "'a list list \<Rightarrow> nat" where
  "last_dim t = (case t of [] \<Rightarrow> 0 | r # _ \<Rightarrow> length r)"

text \<open>
  A boolean mask of shape (batch, 1, rows, columns) is a list (batch) of lists (query
  rows) of lists (key columns); \<open>True\<close> marks a disallowed pair.
  \<^verbatim>\<open>ops.concat\<close> along the last axis needs equal sizes on the other axes.
\<close>

type_synonym mask_tensor = "bool list list list"




section \<open>The invalid-score processor (InvalidScoreLogitsProcessor)\<close>

text \<open>
  The processor looks at the whole tensor (all rows of the batch) and, when any entry is
  NaN or infinite, replaces the tensor by zeros and stores \<open>5e4\<close>, converted to the format
  of the tensor, at index 5 of every row; a row without an index 5 is an IndexError.
\<close>

definition isnan :: "score \<Rightarrow> bool" where
  "isnan x = (case x of NaN \<Rightarrow> True | _ \<Rightarrow> False)"

definition isinf :: "score \<Rightarrow> bool" where
  "isinf x = (case x of PosInf \<Rightarrow> True | NegInf \<Rightarrow> True | _ \<Rightarrow> False)"

definition InvalidScoreLogitsProcessor ::
  "float_format \<Rightarrow> score list list \<Rightarrow> py_error + score list list" where
  "InvalidScoreLogitsProcessor fmt scores =
     (if list_ex (list_ex isnan) scores \<or> list_ex (list_ex isinf) scores
      then (if list_ex (\<lambda>row. length row \<le> 5) scores then Inl IndexError
            else Inr (map (\<lambda>row. (map (\<lambda>_. Fin 0) row)[5 := fl fmt 50000]) scores))
      else Inr scores)"

text \<open>
  The softmax of a row of numbers, in exact arithmetic (\<^verbatim>\<open>ops.softmax\<close> is the library's).
\<close>

definition softmax :: "real list \<Rightarrow> real list" where
  "softmax xs = map (\<lambda>x. exp x / sum_list (map exp xs)) xs"

section \<open>Rotary position embedding (RotaryEmbedding, rotate_half, apply_rotary_pos_emb_index)\<close>

text \<open>
  Tensors of numbers are lists of reals: the formulas are those of the source, the
  rounding of the float16/float32/float64 formats is not part of the model.
  \<^verbatim>\<open>np.arange(0, dim, 2)\<close> is \<open>0, 2, 4, ...\<close> below \<open>dim\<close>; \<^verbatim>\<open>base ** x\<close> on a positive
  base is \<open>base powr x\<close>.
\<close>

definition arange_step2 :: "nat \<Rightarrow> nat list" where
  "arange_step2 dm = map (\<lambda>i. 2 * i) [0..<(dm + 1) div 2]"

definition inv_freq :: "nat \<Rightarrow> real \<Rightarrow> real list" where
  "inv_freq dm base = map (\<lambda>n. 1 / (base powr (real n / real dm))) (arange_step2 dm)"

text \<open>
  \<^verbatim>\<open>RotaryEmbedding.__init__\<close>: \<^verbatim>\<open>freqs = outer(t, inv_freq)\<close>,
  \<^verbatim>\<open>emb = concatenate((freqs, freqs), axis=-1)\<close>, and the two cached tables are
  \<^verbatim>\<open>cos(emb)\<close> and \<^verbatim>\<open>sin(emb)\<close>, one row per position.
\<close>

definition rotary_emb :: "nat \<Rightarrow> real \<Rightarrow> nat \<Rightarrow> real list list" where
  "rotary_emb dm base max_seq_len =
     map (\<lambda>t. let freqs = map (\<lambda>w. real t * w) (inv_freq dm base) in freqs @ freqs)
       [0..<max_seq_len]"

definition cos_cached :: "nat \<Rightarrow> real \<Rightarrow> nat \<Rightarrow> real list list" where
  "cos_cached dm base max_seq_len = map (map cos) (rotary_emb dm base max_seq_len)"

definition sin_cached :: "nat \<Rightarrow> real \<Rightarrow> nat \<Rightarrow> real list list" where
  "sin_cached dm base max_seq_len = map (map sin) (rotary_emb dm base max_seq_len)"

text \<open>
  \<^verbatim>\<open>chunk(x, 2, -1)\<close> cuts the last axis into two pieces; on an even length they are
  the two halves (on an odd length the first piece is taken as the longer one).
\<close>

definition chunk2 :: "'a list \<Rightarrow> 'a list \<times> 'a list" where
  "chunk2 x = (take ((length x + 1) div 2) x, drop ((length x + 1) div 2) x)"

definition rotate_half :: "real list \<Rightarrow> real list" where
  "rotate_half x = (case chunk2 x of (x1, x2) \<Rightarrow> map uminus x2 @ x1)"

text \<open>
  \<^verbatim>\<open>apply_rotary_pos_emb_index\<close> on the vectors of one position and one head:
  \<^verbatim>\<open>cos[position_id]\<close> selects the table row, an index outside the table is an error;
  products and sums are elementwise.
\<close>

definition rotate_at :: "real list \<Rightarrow> real list \<Rightarrow> real list \<Rightarrow> real list" where
  "rotate_at x cos_row sin_row =
     map2 (+) (map2 (*) x cos_row) (map2 (*) (rotate_half x) sin_row)"

definition apply_rotary_pos_emb_index ::
  "real list \<Rightarrow> real list \<Rightarrow> real list list \<Rightarrow> real list list \<Rightarrow> nat
     \<Rightarrow> py_error + (real list \<times> real list)" where
  "apply_rotary_pos_emb_index q k cos_table sin_table position_id =
     (if position_id < length cos_table \<and> position_id < length sin_table
      then Inr (rotate_at q (cos_table ! position_id) (sin_table ! position_id),
                rotate_at k (cos_table ! position_id) (sin_table ! position_id))
      else Inl IndexError)"

section \<open>The per-layer key/value cache (SelfAttention.attention_fn)\<close>

text \<open>
  \<^verbatim>\<open>cache_k\<close> and \<^verbatim>\<open>cache_v\<close> are buffers of shape
  (max_seq_len, max_batch_size, heads, head_dim), allocated with zeros by the constructor.
  Every write of \<^verbatim>\<open>attention_fn\<close> addresses the first axis only, so a buffer is a list of
  slots, one per sequence position; a slot (a batch x heads x head_dim block) is a value of
  a type with a zero.
\<close>

record 'a kv_cache =
  cache_k :: "'a list"
  cache_v :: "'a list"

definition init_cache :: "nat \<Rightarrow> ('a::zero) kv_cache" where
  "init_cache max_seq_len =
     \<lparr>cache_k = replicate max_seq_len 0, cache_v = replicate max_seq_len 0\<rparr>"

text \<open>
  \<^verbatim>\<open>ops.scatter_update(buf, indices, updates)\<close> stores \<^verbatim>\<open>updates[i]\<close> at
  \<^verbatim>\<open>buf[indices[i]]\<close>. The operator belongs to the tensor library: it rejects an update
  whose leading shape differs from that of the indices, and an index outside the buffer is
  an error here (the library gives no defined result for it).
\<close>

definition scatter_update :: "'a list \<Rightarrow> nat list \<Rightarrow> 'a list \<Rightarrow> py_error + 'a list" where
  "scatter_update buf indices updates =
     (if length indices \<noteq> length updates then Inl ValueError
      else if list_ex (\<lambda>i. length buf \<le> i) indices then Inl IndexError
      else Inr (fold (\<lambda>(i, u) b. b[i := u]) (zip indices updates) buf))"

text \<open>
  The cache part of \<^verbatim>\<open>attention_fn\<close> (lines 308-320): \<^verbatim>\<open>seq_len\<close> is
  \<^verbatim>\<open>query_layer.shape[0]\<close>. The result is the updated cache and the keys and values
  read back as the prefix \<^verbatim>\<open>[:bucket_size]\<close>.
\<close>

definition attention_fn_cache ::
  "('a::zero) kv_cache \<Rightarrow> nat \<Rightarrow> 'a list \<Rightarrow> 'a list \<Rightarrow> nat \<Rightarrow> nat
     \<Rightarrow> py_error + ('a kv_cache \<times> 'a list \<times> 'a list)" where
  "attention_fn_cache c seq_len key_layer value_layer start_pos bucket_size =
     (let indices = (if seq_len > 1 then [0..<seq_len] else [start_pos]);
          c0 = (if seq_len > 1
                then \<lparr>cache_k = replicate (length (cache_k c)) 0,
                      cache_v = replicate (length (cache_v c)) 0\<rparr>
                else c)
      in case scatter_update (cache_k c0) indices key_layer of
           Inl e \<Rightarrow> Inl e
         | Inr k' \<Rightarrow>
            (case scatter_update (cache_v c0) indices value_layer of
               Inl e \<Rightarrow> Inl e
             | Inr v' \<Rightarrow>
                Inr (\<lparr>cache_k = k', cache_v = v'\<rparr>, take bucket_size k', take bucket_size v')))"

text \<open>
  A prefill followed by decode steps, each decode step one position after the previous
  one: the calls \<^verbatim>\<open>attention_fn\<close> receives from a driver that advances
  \<^verbatim>\<open>start_pos\<close> by one per step.
\<close>

fun decode_steps ::
  "('a::zero) kv_cache \<Rightarrow> nat \<Rightarrow> ('a \<times> 'a) list \<Rightarrow> nat \<Rightarrow> py_error + 'a kv_cache" where
  "decode_steps c start_pos [] bucket_size = Inr c"
| "decode_steps c start_pos ((k, v) # rest) bucket_size =
     (case attention_fn_cache c 1 [k] [v] start_pos bucket_size of
        Inl e \<Rightarrow> Inl e
      | Inr (c', _, _) \<Rightarrow> decode_steps c' (Suc start_pos) rest bucket_size)"

definition prefill_then_decode ::
  "('a::zero) kv_cache \<Rightarrow> 'a list \<Rightarrow> 'a list \<Rightarrow> ('a \<times> 'a) list \<Rightarrow> nat
     \<Rightarrow> py_error + 'a kv_cache" where
  "prefill_then_decode c ks vs steps bucket_size =
     (case attention_fn_cache c (length ks) ks vs 0 bucket_size of
        Inl e \<Rightarrow> Inl e
      | Inr (c', _, _) \<Rightarrow> decode_steps c' (length ks) steps bucket_size)"

section \<open>Attention scores (SelfAttention.attention_fn, lines 323-356)\<close>

text \<open>
  One (batch, head) slice: \<open>query_layer\<close> has one row of head_dim numbers per query
  position, \<open>key_layer\<close> one row per key position of the bucket, and \<open>attention_mask\<close>
  (after broadcasting) one boolean per (query, key) pair. \<^verbatim>\<open>hidden_size\<close> is
  \<^verbatim>\<open>key_layer.shape[-1]\<close>. The numbers are those of the dtype of \<open>query_layer\<close>
  (float16 as the model builds its layers), with the arithmetic \<open>ar\<close> of that dtype:
  every step up to and including the multiplication by the coefficient runs in it, and
  only then are the scores cast to float32 for the softmax.
\<close>

definition query_key_layer_scaling_coeff :: "'f arith \<Rightarrow> nat \<Rightarrow> 'f" where
  "query_key_layer_scaling_coeff ar layer_id = a_cast ar (real (layer_id + 1))"

definition scale_query :: "'f arith \<Rightarrow> nat \<Rightarrow> nat \<Rightarrow> 'f list list \<Rightarrow> 'f list list" where
  "scale_query ar layer_id hidden_size query_layer =
     map (map (\<lambda>x. a_div ar x
                 (a_mul ar (a_sqrt ar (a_cast ar (real hidden_size)))
                    (query_key_layer_scaling_coeff ar layer_id))))
       query_layer"

definition matmul_qk :: "'f arith \<Rightarrow> 'f list list \<Rightarrow> 'f list list \<Rightarrow> 'f list list" where
  "matmul_qk ar query_layer key_layer =
     map (\<lambda>q. map (\<lambda>k. a_dot ar q k) key_layer) query_layer"

definition masked_fill :: "'f list list \<Rightarrow> bool list list \<Rightarrow> 'f \<Rightarrow> 'f list list" where
  "masked_fill scores msk v = map2 (map2 (\<lambda>s m. if m then v else s)) scores msk"

definition attention_scores ::
  "'f arith \<Rightarrow> nat \<Rightarrow> 'f list list \<Rightarrow> 'f list list \<Rightarrow> bool list list \<Rightarrow> 'f list list" where
  "attention_scores ar layer_id query_layer key_layer attention_mask =
     (let hidden_size = last_dim key_layer;
          query_layer = scale_query ar layer_id hidden_size query_layer;
          matmul_result = matmul_qk ar query_layer key_layer;
          attention_scores = masked_fill matmul_result attention_mask (a_cast ar (- 10000))
      in map (map (\<lambda>s. a_mul ar s (query_key_layer_scaling_coeff ar layer_id))) attention_scores)"

text \<open>
  The probabilities: the scores are cast to float32, the softmax is taken over the key
  axis and the result is cast back; that composition is the parameter \<open>sm\<close>.
\<close>

definition attention_probs ::
  "'f arith \<Rightarrow> ('f list \<Rightarrow> 'f list) \<Rightarrow> nat \<Rightarrow> 'f list list \<Rightarrow> 'f list list \<Rightarrow> bool list list
     \<Rightarrow> 'f list list" where
  "attention_probs ar sm layer_id query_layer key_layer attention_mask =
     map sm (attention_scores ar layer_id query_layer key_layer attention_mask)"

text \<open>Exact arithmetic on the reals.\<close>

definition dot :: "real list \<Rightarrow> real list \<Rightarrow> real" where
  "dot a b = sum_list (map2 (*) a b)"

definition real_arith :: "real arith" where
  "real_arith = \<lparr>a_div = (/), a_mul = (*), a_sqrt = sqrt, a_cast = (\<lambda>x. x), a_dot = dot\<rparr>"

section \<open>The decoder layer (GLMBlock)\<close>

text \<open>
  The constructor of \<^verbatim>\<open>GLMBlock\<close> takes \<^verbatim>\<open>num_layers\<close> as a keyword argument with the
  default 28 and stores it; an argument that the caller leaves out is \<open>None\<close> here.
\<close>

record glm_block =
  block_layer_id :: nat
  block_num_layers :: nat

definition GLMBlock_init :: "nat \<Rightarrow> nat option \<Rightarrow> glm_block" where
  "GLMBlock_init layer_id num_layers_arg =
     \<lparr>block_layer_id = layer_id,
      block_num_layers = (case num_layers_arg of None \<Rightarrow> 28 | Some n \<Rightarrow> n)\<rparr>"

text \<open>\<^verbatim>\<open>alpha = (2 * self.num_layers) ** 0.5\<close>\<close>

definition block_alpha :: "glm_block \<Rightarrow> real" where
  "block_alpha blk = sqrt (real (2 * block_num_layers blk))"

text \<open>
  \<^verbatim>\<open>GLMBlock.construct\<close>. The two layer norms, the attention and the GLU are the
  sub-cells of the block; they are parameters here, the wiring is the block's own code.
  Hidden states are flattened to a list of reals; \<^verbatim>\<open>t * alpha + u\<close> is elementwise.
\<close>

definition scaled_residual :: "real \<Rightarrow> real list \<Rightarrow> real list \<Rightarrow> real list" where
  "scaled_residual alpha t u = map2 (\<lambda>x y. x * alpha + y) t u"

definition GLMBlock_construct ::
  "glm_block \<Rightarrow> (real list \<Rightarrow> real list) \<Rightarrow> (real list \<Rightarrow> real list)
     \<Rightarrow> (real list \<Rightarrow> real list) \<Rightarrow> (real list \<Rightarrow> real list) \<Rightarrow> real list \<Rightarrow> real list" where
  "GLMBlock_construct blk input_layernorm attention post_attention_layernorm mlp hidden_states =
     (let attention_input = input_layernorm hidden_states;
          attention_output = attention attention_input;
          alpha = block_alpha blk;
          hidden_states = scaled_residual alpha attention_input attention_output;
          mlp_input = post_attention_layernorm hidden_states;
          mlp_output = mlp mlp_input
      in scaled_residual alpha mlp_input mlp_output)"

section \<open>Masks and position ids of a prompt (ChatGLMPreTrainedModel)\<close>

text \<open>
  \<^verbatim>\<open>input_ids\<close> is a (batch, seq_length) array of token ids: a list of equally long
  rows. \<^verbatim>\<open>seq.index(x)\<close> is the first index of \<open>x\<close> and raises ValueError when \<open>x\<close>
  does not occur. A list comprehension over the batch raises at the first failing row.
\<close>

definition list_index :: "int list \<Rightarrow> int \<Rightarrow> py_error + nat" where
  "list_index seq x =
     (if x \<in> set seq then Inr (length (takeWhile (\<lambda>y. y \<noteq> x) seq)) else Inl ValueError)"

fun map_result :: "('a \<Rightarrow> py_error + 'b) \<Rightarrow> 'a list \<Rightarrow> py_error + 'b list" where
  "map_result f [] = Inr []"
| "map_result f (x # xs) =
     (case f x of
        Inl e \<Rightarrow> Inl e
      | Inr y \<Rightarrow> (case map_result f xs of Inl e \<Rightarrow> Inl e | Inr ys \<Rightarrow> Inr (y # ys)))"

text \<open>
  \<^verbatim>\<open>get_masks\<close>: a lower-triangular matrix of ones, the columns before the bos token
  set to one, and the entry masked where the matrix is not one.
\<close>

definition get_masks :: "chatglm_config \<Rightarrow> int list list \<Rightarrow> py_error + mask_tensor" where
  "get_masks config input_ids =
     (let seq_length = last_dim input_ids
      in case map_result (\<lambda>seq. list_index seq (bos_token_id config)) input_ids of
           Inl e \<Rightarrow> Inl e
         | Inr context_lengths \<Rightarrow>
             Inr (map (\<lambda>context_length.
                    map (\<lambda>r. map (\<lambda>c. \<not> (c \<le> r \<or> c < context_length)) [0..<seq_length])
                      [0..<seq_length])
                  context_lengths))"

text \<open>
  Position ids: shape (batch, seq) in the one-dimensional mode, (batch, 2, seq) with the
  two-dimensional position encoding.
\<close>

datatype position_ids = Pos1D "int list list" | Pos2D "int list list list"

definition get_position_ids ::
  "chatglm_config \<Rightarrow> int list list \<Rightarrow> nat list \<Rightarrow> bool list \<Rightarrow> py_error + position_ids" where
  "get_position_ids config input_ids mask_positions use_gmasks =
     (let seq_length = last_dim input_ids
      in case map_result (\<lambda>seq. list_index seq (bos_token_id config)) input_ids of
           Inl e \<Rightarrow> Inl e
         | Inr context_lengths \<Rightarrow>
             if position_encoding_2d config then
               Inr (Pos2D (map2 (\<lambda>context_length mask_position.
                      [map (\<lambda>j. if context_length \<le> j then int mask_position else int j)
                         [0..<seq_length],
                       replicate context_length 0
                         @ map (\<lambda>j. int j + 1) [0..<seq_length - context_length]])
                    context_lengths mask_positions))
             else
               Inr (Pos1D (map (\<lambda>(context_length, mask_position, use_gmask).
                      map (\<lambda>j. if \<not> use_gmask \<and> context_length \<le> j
                                then int mask_position else int j) [0..<seq_length])
                    (zip context_lengths (zip mask_positions use_gmasks)))))"

section \<open>The decoder stack (ChatGLMModel)\<close>

text \<open>
  \<^verbatim>\<open>get_layer\<close> (lines 637-649) builds a block from the layer index; among the keyword
  arguments it passes, \<^verbatim>\<open>num_layers\<close> does not occur. \<^verbatim>\<open>self.layers\<close> is
  \<^verbatim>\<open>[get_layer(layer_id) for layer_id in range(self.num_layers)]\<close>.
\<close>

definition get_layer :: "chatglm_config \<Rightarrow> nat \<Rightarrow> glm_block" where
  "get_layer config layer_id = GLMBlock_init layer_id None"

definition model_layers :: "chatglm_config \<Rightarrow> glm_block list" where
  "model_layers config = map (get_layer config) [0..<num_layers config]"



text \<open>A configuration of a single-layer model.\<close>

definition single_layer_config :: chatglm_config where
  "single_layer_config =
     \<lparr>num_layers = 1, pre_seq_len = None, position_encoding_2d = True,
      bos_token_id = 130004, mask_token_id = 130000, gmask_token_id = 130001\<rparr>"

section \<open>Generation (ChatGLMForConditionalGeneration)\<close>

text \<open>
  An attention mask handed to the generation code is a numpy array of dtype
  \<^verbatim>\<open>np.bool_\<close>, a tensor of dtype \<^verbatim>\<open>mindspore.bool_\<close>, or an array or tensor of another
  dtype. The code tests the dtype in three places, against \<^verbatim>\<open>mindspore.bool_\<close> at lines
  792 and 857 and against \<^verbatim>\<open>np.bool_\<close> at line 835; a numpy dtype is not
  \<^verbatim>\<open>mindspore.bool_\<close> and a tensor's dtype is not \<^verbatim>\<open>np.bool_\<close>.
  \<^verbatim>\<open>model_kwargs\<close> is the dictionary of keyword arguments carried between steps; a key
  that is absent is \<open>None\<close>. \<^verbatim>\<open>bucket_size\<close> has the default 512.
\<close>

datatype attn_mask_arg = NumpyBoolMask mask_tensor | MsBoolMask mask_tensor | OtherMask

record model_kwargs =
  kw_start_pos :: "nat option"
  kw_attention_mask :: "attn_mask_arg option"
  kw_position_ids :: "position_ids option"
  kw_bucket_size :: "nat option"

text \<open>The tuple a forward call receives: input ids, position ids, mask, start_pos, bucket size.\<close>

type_synonym model_inputs = "int list list \<times> position_ids \<times> mask_tensor \<times> nat \<times> nat"

text \<open>\<^verbatim>\<open>x[-1:]\<close> on a list: the last element as a list, nothing for an empty list.\<close>

definition last_slice :: "'a list \<Rightarrow> 'a list" where
  "last_slice xs = drop (length xs - 1) xs"

text \<open>
  \<^verbatim>\<open>_update_model_kwargs_for_generation\<close>: \<^verbatim>\<open>start_pos\<close> is stored as given; a mask
  of dtype \<^verbatim>\<open>mindspore.bool_\<close> gets one more masked column and one more row, a copy of its last row with the new
  column allowed; position ids get one more column, the block position advanced by one
  (the slice \<^verbatim>\<open>position_ids[..., -1:]\<close> is taken as a copy). The index
  \<^verbatim>\<open>[:, 1, :]\<close> needs three axes and a second channel.
\<close>

definition extend_mask_rows :: "bool list list \<Rightarrow> bool list list" where
  "extend_mask_rows rows =
     (let widened = map (\<lambda>r. r @ [True]) rows;
          new_attention_mask = map (\<lambda>r. butlast r @ [False]) (last_slice widened)
      in widened @ new_attention_mask)"

definition extend_position_ids :: "position_ids \<Rightarrow> py_error + position_ids" where
  "extend_position_ids p =
     (case p of
        Pos1D _ \<Rightarrow> Inl IndexError
      | Pos2D chans \<Rightarrow>
          if list_ex (\<lambda>c. length c < 2) chans then Inl IndexError
          else Inr (Pos2D (map (\<lambda>c.
                  let new_position_id = map last_slice c;
                      new_position_id = new_position_id[1 := map (\<lambda>v. v + 1) (new_position_id ! 1)]
                  in map2 (@) c new_position_id) chans)))"

definition update_model_kwargs_for_generation ::
  "nat \<Rightarrow> model_kwargs \<Rightarrow> py_error + model_kwargs" where
  "update_model_kwargs_for_generation start_pos kw =
     (let kw = kw\<lparr>kw_start_pos := Some start_pos\<rparr>;
          kw = (case kw_attention_mask kw of
                  Some (MsBoolMask m) \<Rightarrow>
                    kw\<lparr>kw_attention_mask := Some (MsBoolMask (map extend_mask_rows m))\<rparr>
                | _ \<Rightarrow> kw)
      in case kw_position_ids kw of
           None \<Rightarrow> Inr kw
         | Some p \<Rightarrow>
             (case extend_position_ids p of
                Inl e \<Rightarrow> Inl e
              | Inr p' \<Rightarrow> Inr (kw\<lparr>kw_position_ids := Some p'\<rparr>)))"

text \<open>
  \<^verbatim>\<open>prepare_inputs_for_generation\<close>. The loop over the rows looks up the gMASK token if
  the row has one and the MASK token otherwise; then the bucket size is rounded up; then
  the decode branch (a \<^verbatim>\<open>start_pos\<close> is given) or the prefill branch builds the inputs.
  The decode branch keeps the last row of a mask of dtype \<^verbatim>\<open>np.bool_\<close> and replaces any
  other by a single allowed entry; the prefill branch keeps a mask of dtype
  \<^verbatim>\<open>mindspore.bool_\<close> and replaces any other by the result of \<^verbatim>\<open>get_masks\<close>.
\<close>

definition find_mask_positions ::
  "chatglm_config \<Rightarrow> int list list \<Rightarrow> py_error + (nat \<times> bool) list" where
  "find_mask_positions config seqs =
     map_result (\<lambda>seq.
        let mask_token = (if gmask_token_id config \<in> set seq then gmask_token_id config
                          else mask_token_id config);
            use_gmask = (mask_token = gmask_token_id config)
        in case list_index seq mask_token of
             Inl e \<Rightarrow> Inl e
           | Inr mask_position \<Rightarrow> Inr (mask_position, use_gmask)) seqs"

definition decode_position_ids ::
  "chatglm_config \<Rightarrow> int list list \<Rightarrow> nat list \<Rightarrow> py_error + position_ids" where
  "decode_position_ids config seqs mask_positions =
     (let seq_length = last_dim seqs
      in case map_result (\<lambda>seq. list_index seq (bos_token_id config)) seqs of
           Inl e \<Rightarrow> Inl e
         | Inr context_lengths \<Rightarrow>
             if position_encoding_2d config then
               Inr (Pos2D (map2 (\<lambda>mask_position context_length.
                      [[int mask_position], [int seq_length - int context_length]])
                    mask_positions context_lengths))
             else Inr (Pos1D (map (\<lambda>mask_position. [int mask_position]) mask_positions)))"

definition slice_last_position :: "position_ids \<Rightarrow> position_ids" where
  "slice_last_position p =
     (case p of Pos1D rows \<Rightarrow> Pos1D (map last_slice rows)
              | Pos2D chans \<Rightarrow> Pos2D (map (map last_slice) chans))"

definition prepare_inputs_for_generation ::
  "chatglm_config \<Rightarrow> int list list \<Rightarrow> model_kwargs \<Rightarrow> py_error + model_inputs" where
  "prepare_inputs_for_generation config input_ids kw =
     (let seq_length = last_dim input_ids
      in case find_mask_positions config input_ids of
           Inl e \<Rightarrow> Inl e
         | Inr found \<Rightarrow>
            (let mask_positions = map fst found;
                 use_gmasks = map snd found;
                 bucket_size = (case kw_bucket_size kw of None \<Rightarrow> 512 | Some b \<Rightarrow> b)
             in if bucket_size = 0 then Inl ZeroDivisionError
                else
                 (let bucket_size = ((seq_length div bucket_size) + 1) * bucket_size
                  in case kw_start_pos kw of
                       Some start_pos \<Rightarrow>
                         if seq_length = 0 then Inl IndexError
                         else
                          (let last_token = map (\<lambda>seq. [last seq]) input_ids;
                               attention_mask =
                                 (case kw_attention_mask kw of
                                    Some (NumpyBoolMask m) \<Rightarrow> map last_slice m
                                  | _ \<Rightarrow> [[[False]]])
                           in case (case kw_position_ids kw of
                                      Some p \<Rightarrow> Inr (slice_last_position p)
                                    | None \<Rightarrow> decode_position_ids config input_ids mask_positions) of
                                Inl e \<Rightarrow> Inl e
                              | Inr position_ids \<Rightarrow>
                                  Inr (last_token, position_ids, attention_mask, start_pos,
                                       bucket_size))
                     | None \<Rightarrow>
                         (case (case kw_attention_mask kw of
                                  Some (MsBoolMask m) \<Rightarrow> Inr m
                                | _ \<Rightarrow> get_masks config input_ids) of
                            Inl e \<Rightarrow> Inl e
                          | Inr attention_mask \<Rightarrow>
                             (case (case kw_position_ids kw of
                                      Some p \<Rightarrow> Inr p
                                    | None \<Rightarrow> get_position_ids config input_ids mask_positions
                                                use_gmasks) of
                                Inl e \<Rightarrow> Inl e
                              | Inr position_ids \<Rightarrow>
                                  Inr (input_ids, position_ids, attention_mask, 0,
                                       bucket_size))))))"

text \<open>
  The end-of-sequence ids of the generation configuration: absent, one id, or a list.
  \<^verbatim>\<open>if isinstance(eos_token_id, int): eos_token_id = [eos_token_id]\<close>.
\<close>

datatype eos_token_id = EosNone | EosInt int | EosList "int list"

definition eos_id_list :: "eos_token_id \<Rightarrow> int list option" where
  "eos_id_list e = (case e of EosNone \<Rightarrow> None | EosInt i \<Rightarrow> Some [i] | EosList l \<Rightarrow> Some l)"

text \<open>
  Line 1101:
  \<^verbatim>\<open>unfinished_sequences.mul((sum(next_tokens != i for i in eos_token_id)).long())\<close>.
  The flags are 64-bit integers. Iterating \<open>None\<close> is a TypeError; the sum over an empty
  list is the Python integer 0, which has no method \<^verbatim>\<open>long\<close>.
\<close>

definition not_eos_count :: "int list \<Rightarrow> int \<Rightarrow> 64 word" where
  "not_eos_count eos t = sum_list (map (\<lambda>i. if t \<noteq> i then 1 else 0) eos)"

definition update_unfinished ::
  "int list option \<Rightarrow> 64 word list \<Rightarrow> int list \<Rightarrow> py_error + 64 word list" where
  "update_unfinished eos unfinished_sequences next_tokens =
     (case eos of
        None \<Rightarrow> Inl TypeError
      | Some [] \<Rightarrow> Inl AttributeError
      | Some ids \<Rightarrow> Inr (map2 (\<lambda>u t. u * not_eos_count ids t) unfinished_sequences next_tokens))"

text \<open>\<^verbatim>\<open>unfinished_sequences.max()\<close>, as a signed value; an empty tensor has no maximum.\<close>

definition tensor_max :: "64 word list \<Rightarrow> py_error + int" where
  "tensor_max xs = (case xs of [] \<Rightarrow> Inl ValueError | x # rest \<Rightarrow> Inr (fold max (map sint rest) (sint x)))"

text \<open>
  The state of the loop of \<^verbatim>\<open>stream_generate\<close>. The forward pass, the logits
  processors and warpers, the softmax and the choice of the next tokens (arg-max or
  sampling) depend on the weights and on objects outside this file: together they are
  the parameter \<open>fwd\<close>, a function from the state of the model (caches, random
  generator) and the inputs of a forward call to the new state and one next token per
  row. The compiled and the uncompiled forward call are the same function.
\<close>

record 's gen_state =
  gs_input_ids :: "int list list"
  gs_kwargs :: model_kwargs
  gs_unfinished :: "64 word list"
  gs_model :: 's

text \<open>
  One pass through the body of the loop, up to the update of the flags (lines 1074-1101).
  An error comes with the state of the model at the moment it is raised.
\<close>

definition generation_step ::
  "chatglm_config \<Rightarrow> ('s \<Rightarrow> model_inputs \<Rightarrow> 's \<times> int list) \<Rightarrow> int list option
     \<Rightarrow> 's gen_state \<Rightarrow> (py_error \<times> 's) + 's gen_state" where
  "generation_step config fwd eos st =
     (case prepare_inputs_for_generation config (gs_input_ids st) (gs_kwargs st) of
        Inl e \<Rightarrow> Inl (e, gs_model st)
      | Inr model_inputs \<Rightarrow>
         (case fwd (gs_model st) model_inputs of
            (s', next_tokens) \<Rightarrow>
              if length next_tokens \<noteq> length (gs_input_ids st) then Inl (ValueError, s')
              else
               (let input_ids = map2 (\<lambda>seq t. seq @ [t]) (gs_input_ids st) next_tokens;
                    start_pos = last_dim input_ids
                in case update_model_kwargs_for_generation start_pos (gs_kwargs st) of
                     Inl e \<Rightarrow> Inl (e, s')
                   | Inr model_kwargs \<Rightarrow>
                      (case update_unfinished eos (gs_unfinished st) next_tokens of
                         Inl e \<Rightarrow> Inl (e, s')
                       | Inr unfinished_sequences \<Rightarrow>
                           Inr \<lparr>gs_input_ids = input_ids, gs_kwargs = model_kwargs,
                                gs_unfinished = unfinished_sequences, gs_model = s'\<rparr>))))"

text \<open>
  The result of running the generator to its end: the sequences it yielded, in order, the
  token sequences at the moment the loop was left, and the state of the model; or the
  error that ended it, with what had been yielded before.
\<close>

datatype 's outcome =
  Finished "int list list list" "int list list" 's
| Raised py_error "int list list list" 's

text \<open>
  The loop (lines 1073-1106): after each step the loop is left when the largest flag is 0
  or the stopping criteria hold for the grown sequences; otherwise the grown sequences
  are yielded and the loop goes on. A loop that never ends has no outcome.
\<close>

partial_function (option) stream_loop ::
  "chatglm_config \<Rightarrow> ('s \<Rightarrow> model_inputs \<Rightarrow> 's \<times> int list) \<Rightarrow> int list option
     \<Rightarrow> (int list list \<Rightarrow> bool) \<Rightarrow> 's gen_state \<Rightarrow> int list list list \<Rightarrow> 's outcome option" where
  "stream_loop config fwd eos stopping_criteria st yielded =
     (case generation_step config fwd eos st of
        Inl (e, s) \<Rightarrow> Some (Raised e yielded s)
      | Inr st' \<Rightarrow>
         (case tensor_max (gs_unfinished st') of
            Inl e \<Rightarrow> Some (Raised e yielded (gs_model st'))
          | Inr m \<Rightarrow>
              if m = 0 \<or> stopping_criteria (gs_input_ids st')
              then Some (Finished yielded (gs_input_ids st') (gs_model st'))
              else stream_loop config fwd eos stopping_criteria st'
                     (yielded @ [gs_input_ids st'])))"

definition stream_generate ::
  "chatglm_config \<Rightarrow> ('s \<Rightarrow> model_inputs \<Rightarrow> 's \<times> int list) \<Rightarrow> eos_token_id
     \<Rightarrow> (int list list \<Rightarrow> bool) \<Rightarrow> int list list \<Rightarrow> model_kwargs \<Rightarrow> 's \<Rightarrow> 's outcome option" where
  "stream_generate config fwd eos stopping_criteria input_ids model_kwargs s0 =
     stream_loop config fwd (eos_id_list eos) stopping_criteria
       \<lparr>gs_input_ids = input_ids, gs_kwargs = model_kwargs,
        gs_unfinished = replicate (length input_ids) 1, gs_model = s0\<rparr> []"

text \<open>
  Modelled from the spec: the max-length stopping criterion, whose class is not in this
  file. The spec has generation stop at the step where the sequence length reaches the
  configured maximum ("emit exactly L - prompt_length tokens, transitioning to DONE
  strictly at that boundary").
\<close>

definition max_length_criteria :: "nat \<Rightarrow> int list list \<Rightarrow> bool" where
  "max_length_criteria max_length input_ids = (max_length \<le> last_dim input_ids)"

text \<open>
  Fixtures for evaluating the driver: keyword arguments with nothing set, and a forward
  function that leaves the model state alone and picks the token \<open>t\<close> for every row.
\<close>

definition no_kwargs :: model_kwargs where
  "no_kwargs = \<lparr>kw_start_pos = None, kw_attention_mask = None, kw_position_ids = None,
                kw_bucket_size = None\<rparr>"

definition constant_forward :: "int \<Rightarrow> 's \<Rightarrow> model_inputs \<Rightarrow> 's \<times> int list" where
  "constant_forward t s model_inputs = (s, map (\<lambda>_. t) (fst model_inputs))"

text \<open>A prompt of three tokens holding the gMASK and the bos token of the configuration above.\<close>

definition prompt3 :: "int list list" where
  "prompt3 = [[5, 130001, 130004]]"

text \<open>
  Keyword arguments of a prefill that supply a numpy boolean mask and position ids for a
  prompt of two tokens.
\<close>

definition numpy_mask_kwargs :: model_kwargs where
  "numpy_mask_kwargs =
     \<lparr>kw_start_pos = None,
      kw_attention_mask = Some (NumpyBoolMask [[[False, True], [False, False]]]),
      kw_position_ids = Some (Pos2D [[[0, 1], [0, 0]]]),
      kw_bucket_size = None\<rparr>"

text \<open>
  Predicates used to state when the driver runs without an error: a prompt row holds a
  mask token (gMASK or MASK) and the bos token; the keyword arguments have a usable
  bucket size and, if they carry position ids, position ids of the two-channel shape.
\<close>

definition has_prompt_tokens :: "chatglm_config \<Rightarrow> int list \<Rightarrow> bool" where
  "has_prompt_tokens config seq =
     ((gmask_token_id config \<in> set seq \<or> mask_token_id config \<in> set seq)
      \<and> bos_token_id config \<in> set seq)"

definition kwargs_usable :: "model_kwargs \<Rightarrow> bool" where
  "kwargs_usable kw =
     (kw_bucket_size kw \<noteq> Some 0
      \<and> (case kw_position_ids kw of
            None \<Rightarrow> True
          | Some (Pos1D _) \<Rightarrow> False
          | Some (Pos2D chans) \<Rightarrow> list_all (\<lambda>c. 2 \<le> length c) chans))"

definition loop_invariant :: "chatglm_config \<Rightarrow> nat \<Rightarrow> nat \<Rightarrow> 's gen_state \<Rightarrow> bool" where
  "loop_invariant config batch n st =
     (0 < batch \<and> length (gs_input_ids st) = batch
      \<and> list_all (\<lambda>seq. length seq = n \<and> has_prompt_tokens config seq) (gs_input_ids st)
      \<and> kwargs_usable (gs_kwargs st)
      \<and> gs_unfinished st = replicate batch 1)"

section \<open>Evaluation of the generation code on concrete inputs\<close>

lemmas prepare_eval = prepare_inputs_for_generation_def find_mask_positions_def list_index_def
  get_masks_def get_position_ids_def decode_position_ids_def last_dim_def Let_def upt_rec
  slice_last_position_def last_slice_def

lemmas step_eval = generation_step_def constant_forward_def update_model_kwargs_for_generation_def
  update_unfinished_def not_eos_count_def extend_mask_rows_def extend_position_ids_def

section \<open>The cache write protocol\<close>

lemma fold_scatter_prefix:
  "length ks \<le> length buf \<Longrightarrow>
   fold (\<lambda>(i, u) b. b[i := u]) (zip [0..<length ks] ks) buf = ks @ drop (length ks) buf"
proof (induction ks rule: rev_induct)
  case Nil
  then show ?case by simp
next
  case (snoc x ks)
  have z: "zip [0..<length (ks @ [x])] (ks @ [x]) = zip [0..<length ks] ks @ [(length ks, x)]"
    by simp
  from snoc have le: "length ks < length buf" by simp
  have "fold (\<lambda>(i, u) b. b[i := u]) (zip [0..<length (ks @ [x])] (ks @ [x])) buf
        = (ks @ drop (length ks) buf)[length ks := x]"
    using snoc.IH le by (simp only: z fold_append) simp
  also have "\<dots> = ks @ (drop (length ks) buf)[0 := x]"
    by (simp add: list_update_append)
  also have "\<dots> = (ks @ [x]) @ drop (length (ks @ [x])) buf"
    using le Cons_nth_drop_Suc [of "length ks" buf, symmetric] by simp
  finally show ?case .
qed

lemma scatter_update_prefill:
  "length ks \<le> n \<Longrightarrow>
   scatter_update (replicate n (0::'a::zero)) [0..<length ks] ks
     = Inr (ks @ replicate (n - length ks) 0)"
  using fold_scatter_prefix [of ks "replicate n (0::'a)"]
  by (simp add: scatter_update_def list_ex_iff)

lemma scatter_update_single:
  "sp < length buf \<Longrightarrow> scatter_update buf [sp] [k] = Inr (buf[sp := k])"
  by (simp add: scatter_update_def)

lemma attention_fn_cache_prefill:
  assumes "1 < length ks" "length vs = length ks"
    "length ks \<le> length (cache_k c)" "length ks \<le> length (cache_v c)"
  shows "attention_fn_cache c (length ks) ks vs sp b =
     Inr (\<lparr>cache_k = ks @ replicate (length (cache_k c) - length ks) 0,
           cache_v = vs @ replicate (length (cache_v c) - length ks) 0\<rparr>,
          take b (ks @ replicate (length (cache_k c) - length ks) 0),
          take b (vs @ replicate (length (cache_v c) - length ks) 0))"
  using assms scatter_update_prefill [of ks "length (cache_k c)"]
    scatter_update_prefill [of vs "length (cache_v c)"]
  by (simp add: attention_fn_cache_def)

lemma attention_fn_cache_decode:
  assumes "sp < length (cache_k c)" "sp < length (cache_v c)"
  shows "attention_fn_cache c 1 [k] [v] sp b =
     Inr (\<lparr>cache_k = (cache_k c)[sp := k], cache_v = (cache_v c)[sp := v]\<rparr>,
          take b ((cache_k c)[sp := k]), take b ((cache_v c)[sp := v]))"
  using assms by (simp add: attention_fn_cache_def scatter_update_single)

lemma decode_steps_result:
  "sp + length steps \<le> length (cache_k c) \<Longrightarrow> sp + length steps \<le> length (cache_v c) \<Longrightarrow>
   decode_steps c sp steps b =
     Inr \<lparr>cache_k = take sp (cache_k c) @ map fst steps @ drop (sp + length steps) (cache_k c),
          cache_v = take sp (cache_v c) @ map snd steps @ drop (sp + length steps) (cache_v c)\<rparr>"
proof (induction steps arbitrary: c sp)
  case Nil
  then show ?case by simp
next
  case (Cons a steps)
  obtain k v where a: "a = (k, v)" by (cases a)
  from Cons.prems have lt: "sp < length (cache_k c)" "sp < length (cache_v c)" by simp_all
  let ?c = "\<lparr>cache_k = (cache_k c)[sp := k], cache_v = (cache_v c)[sp := v]\<rparr>"
  have "decode_steps c sp (a # steps) b = decode_steps ?c (Suc sp) steps b"
    using lt attention_fn_cache_decode [of sp c k v b] by (simp add: a)
  also have "\<dots> = Inr \<lparr>cache_k = take (Suc sp) (cache_k ?c) @ map fst steps @ drop (Suc sp + length steps) (cache_k ?c),
          cache_v = take (Suc sp) (cache_v ?c) @ map snd steps @ drop (Suc sp + length steps) (cache_v ?c)\<rparr>"
    using Cons.prems by (intro Cons.IH) simp_all
  also have "take (Suc sp) (cache_k ?c) = take sp (cache_k c) @ [k]"
    using lt by (simp add: take_Suc_conv_app_nth)
  also have "take (Suc sp) (cache_v ?c) = take sp (cache_v c) @ [v]"
    using lt by (simp add: take_Suc_conv_app_nth)
  finally show ?case by (simp add: a)
qed

text \<open>
  Claim C1. With both buffers of capacity \<open>cap\<close>: a call whose sequence length exceeds 1
  (prefill) zeroes both buffers and stores the new keys and values at positions
  \<open>[0, seq_len)\<close>, whatever the buffers held before; a call of sequence length 1 (decode)
  with \<open>start_pos < cap\<close> overwrites the slot \<open>start_pos\<close> and no other; so after a prefill
  of length \<open>L\<close> and \<open>k\<close> decode steps at \<open>start_pos = L, L+1, ...\<close> with
  \<open>L + k \<le> cap\<close>, the prefix \<open>[0, L+k)\<close> of each buffer holds the keys and values
  written at each step, in order.
\<close>

theorem kv_cache_write_protocol:
  fixes c :: "('a::zero) kv_cache"
  assumes cap: "length (cache_k c) = cap" "length (cache_v c) = cap"
  shows
    "(1 < length ks \<and> length vs = length ks \<and> length ks \<le> cap \<longrightarrow>
        attention_fn_cache c (length ks) ks vs sp b =
          Inr (\<lparr>cache_k = ks @ replicate (cap - length ks) 0,
                cache_v = vs @ replicate (cap - length ks) 0\<rparr>,
               take b (ks @ replicate (cap - length ks) 0),
               take b (vs @ replicate (cap - length ks) 0)))
     \<and> (sp < cap \<longrightarrow>
        attention_fn_cache c 1 [k] [v] sp b =
          Inr (\<lparr>cache_k = (cache_k c)[sp := k], cache_v = (cache_v c)[sp := v]\<rparr>,
               take b ((cache_k c)[sp := k]), take b ((cache_v c)[sp := v])))
     \<and> (1 < length ks \<and> length vs = length ks \<and> length ks + length steps \<le> cap \<longrightarrow>
        (\<exists>c'. prefill_then_decode c ks vs steps b = Inr c'
           \<and> length (cache_k c') = cap \<and> length (cache_v c') = cap
           \<and> take (length ks + length steps) (cache_k c') = ks @ map fst steps
           \<and> take (length ks + length steps) (cache_v c') = vs @ map snd steps))"
proof (intro conjI impI)
  assume h: "1 < length ks \<and> length vs = length ks \<and> length ks \<le> cap"
  then show "attention_fn_cache c (length ks) ks vs sp b =
          Inr (\<lparr>cache_k = ks @ replicate (cap - length ks) 0,
                cache_v = vs @ replicate (cap - length ks) 0\<rparr>,
               take b (ks @ replicate (cap - length ks) 0),
               take b (vs @ replicate (cap - length ks) 0))"
    using attention_fn_cache_prefill [of ks vs c sp b] cap by simp
next
  assume "sp < cap"
  then show "attention_fn_cache c 1 [k] [v] sp b =
          Inr (\<lparr>cache_k = (cache_k c)[sp := k], cache_v = (cache_v c)[sp := v]\<rparr>,
               take b ((cache_k c)[sp := k]), take b ((cache_v c)[sp := v]))"
    using attention_fn_cache_decode [of sp c k v b] cap by simp
next
  assume h: "1 < length ks \<and> length vs = length ks \<and> length ks + length steps \<le> cap"
  let ?L = "length ks"
  let ?c1 = "\<lparr>cache_k = ks @ replicate (cap - ?L) (0::'a),
             cache_v = vs @ replicate (cap - ?L) (0::'a)\<rparr>"
  have pre: "attention_fn_cache c ?L ks vs 0 b =
      Inr (?c1, take b (cache_k ?c1), take b (cache_v ?c1))"
    using attention_fn_cache_prefill [of ks vs c 0 b] cap h by simp
  have len1: "length (cache_k ?c1) = cap" "length (cache_v ?c1) = cap"
    using h by simp_all
  have dec: "decode_steps ?c1 ?L steps b =
     Inr \<lparr>cache_k = take ?L (cache_k ?c1) @ map fst steps @ drop (?L + length steps) (cache_k ?c1),
          cache_v = take ?L (cache_v ?c1) @ map snd steps @ drop (?L + length steps) (cache_v ?c1)\<rparr>"
    using h len1 by (intro decode_steps_result) simp_all
  have run: "prefill_then_decode c ks vs steps b =
     Inr \<lparr>cache_k = ks @ map fst steps @ replicate (cap - (?L + length steps)) 0,
          cache_v = vs @ map snd steps @ replicate (cap - (?L + length steps)) 0\<rparr>"
    using h by (simp add: prefill_then_decode_def pre dec)
  show "\<exists>c'. prefill_then_decode c ks vs steps b = Inr c'
           \<and> length (cache_k c') = cap \<and> length (cache_v c') = cap
           \<and> take (length ks + length steps) (cache_k c') = ks @ map fst steps
           \<and> take (length ks + length steps) (cache_v c') = vs @ map snd steps"
    using h by (simp add: run)
qed

theorem kv_cache_write_protocol_witness:
  "length (cache_k (init_cache 4 :: int kv_cache)) = 4
   \<and> length (cache_v (init_cache 4 :: int kv_cache)) = 4
   \<and> 1 < length [11, 12 :: int] \<and> length [21, 22 :: int] = length [11, 12 :: int]
   \<and> length [11, 12 :: int] + length [(13 :: int, 23 :: int)] \<le> 4 \<and> (3::nat) < 4
   \<and> attention_fn_cache (init_cache 4 :: int kv_cache) (length [11, 12 :: int]) [11, 12] [21, 22] 0 4 =
        Inr (\<lparr>cache_k = [11, 12, 0, 0], cache_v = [21, 22, 0, 0]\<rparr>, [11, 12, 0, 0], [21, 22, 0, 0])
   \<and> attention_fn_cache (init_cache 4 :: int kv_cache) 1 [13] [23] 3 4 =
        Inr (\<lparr>cache_k = [0, 0, 0, 13], cache_v = [0, 0, 0, 23]\<rparr>, [0, 0, 0, 13], [0, 0, 0, 23])
   \<and> (\<exists>c'. prefill_then_decode (init_cache 4 :: int kv_cache) [11, 12] [21, 22] [(13, 23)] 4 = Inr c'
         \<and> take 3 (cache_k c') = [11, 12, 13] \<and> take 3 (cache_v c') = [21, 22, 23])"
  using kv_cache_write_protocol [where c = "init_cache 4 :: int kv_cache" and cap = 4
      and ks = "[11, 12]" and vs = "[21, 22]" and b = 4 and sp = 3 and k = 13 and v = 23
      and steps = "[(13, 23)]"]
    kv_cache_write_protocol [where c = "init_cache 4 :: int kv_cache" and cap = 4
      and ks = "[11, 12]" and vs = "[21, 22]" and b = 4 and sp = 0 and k = 13 and v = 23
      and steps = "[(13, 23)]"]
  by (auto simp add: init_cache_def numeral_eq_Suc)

section \<open>Mask construction\<close>















section \<open>Attention score scaling\<close>

lemma dot_scale_left: "dot (map (\<lambda>x. x / c) a) b = dot a b / c"
proof (induction a arbitrary: b)
  case Nil
  then show ?case by (simp add: dot_def)
next
  case (Cons x a)
  then show ?case
    by (cases b) (simp_all add: dot_def add_divide_distrib)
qed

lemma attention_scores_nth:
  assumes "i < length query_layer" "j < length key_layer"
    "length attention_mask = length query_layer" "length (attention_mask ! i) = length key_layer"
  shows "attention_scores ar layer_id query_layer key_layer attention_mask ! i ! j =
     a_mul ar
       (if attention_mask ! i ! j then a_cast ar (- 10000)
        else a_dot ar
               (map (\<lambda>x. a_div ar x
                       (a_mul ar (a_sqrt ar (a_cast ar (real (last_dim key_layer))))
                          (a_cast ar (real (layer_id + 1)))))
                  (query_layer ! i))
               (key_layer ! j))
       (a_cast ar (real (layer_id + 1)))"
  using assms
  by (simp add: attention_scores_def masked_fill_def matmul_qk_def scale_query_def
      query_key_layer_scaling_coeff_def Let_def)

lemma float_masked_product:
  assumes "rnd fmt (- 10000) = - 10000" "rnd fmt (real (layer_id + 1)) = real (layer_id + 1)"
    "10000 < overflow fmt" "real (layer_id + 1) < overflow fmt"
  shows "score_mul fmt (fl fmt (- 10000)) (fl fmt (real (layer_id + 1)))
         = fl fmt (- 10000 * real (layer_id + 1))"
proof -
  have a: "fl fmt (- 10000) = Fin (- 10000)"
    using assms(1,3) by (simp add: fl_def)
  have "- overflow fmt < 0" using assms(3) by simp
  also have "0 < real (layer_id + 1)" by simp
  finally have "\<not> real (layer_id + 1) \<le> - overflow fmt" by simp
  then have b: "fl fmt (real (layer_id + 1)) = Fin (real (layer_id + 1))"
    using assms(2,4) by (simp add: fl_def)
  show ?thesis unfolding a b by (simp add: score_mul_def)
qed

text \<open>
  Claim C3. In the arithmetic of the scores' dtype, whichever it is, every score that
  enters the softmax is built in this order: the query is divided by
  \<open>sqrt(head_dim) * (layer_id + 1)\<close>, the dot product with the key is taken, a masked
  position is set to \<open>-10000\<close> (converted to the dtype), and the result is multiplied by
  \<open>layer_id + 1\<close>; the softmax is applied to the rows so obtained. In exact arithmetic a
  masked position enters the softmax as \<open>-10000 * (layer_id + 1)\<close> and an unmasked one as
  the dot product divided by \<open>sqrt(head_dim)\<close>. In a floating-point format that holds
  \<open>-10000\<close> and \<open>layer_id + 1\<close> exactly, the masked product is
  \<open>-10000 * (layer_id + 1)\<close> rounded while it stays inside the overflow threshold and
  minus infinity once it does not: in float16, whose threshold is 65520, the sentinel
  stored at a masked position is the finite \<open>-10000\<close> at every layer, and its product
  with \<open>layer_id + 1\<close> is minus infinity from \<open>layer_id = 6\<close> on.
\<close>

theorem attention_score_scaling:
  assumes "i < length query_layer" "j < length key_layer"
    "length attention_mask = length query_layer" "length (attention_mask ! i) = length key_layer"
  shows "attention_scores ar layer_id query_layer key_layer attention_mask ! i ! j =
       a_mul ar
         (if attention_mask ! i ! j then a_cast ar (- 10000)
          else a_dot ar
                 (map (\<lambda>x. a_div ar x
                         (a_mul ar (a_sqrt ar (a_cast ar (real (last_dim key_layer))))
                            (a_cast ar (real (layer_id + 1)))))
                    (query_layer ! i))
                 (key_layer ! j))
         (a_cast ar (real (layer_id + 1)))
   \<and> attention_probs ar sm layer_id query_layer key_layer attention_mask ! i
        = sm (attention_scores ar layer_id query_layer key_layer attention_mask ! i)
   \<and> (i < length qr \<and> j < length kr \<and> length attention_mask = length qr
        \<and> length (attention_mask ! i) = length kr \<longrightarrow>
        (attention_mask ! i ! j \<longrightarrow>
           attention_scores real_arith layer_id qr kr attention_mask ! i ! j
             = - 10000 * real (layer_id + 1))
        \<and> (\<not> attention_mask ! i ! j \<longrightarrow>
           attention_scores real_arith layer_id qr kr attention_mask ! i ! j
             = dot (qr ! i) (kr ! j) / sqrt (real (last_dim kr))))
   \<and> (i < length qf \<and> j < length kf \<and> length attention_mask = length qf
        \<and> length (attention_mask ! i) = length kf \<and> attention_mask ! i ! j
        \<and> rnd fmt (- 10000) = - 10000 \<and> rnd fmt (real (layer_id + 1)) = real (layer_id + 1)
        \<and> 10000 < overflow fmt \<and> real (layer_id + 1) < overflow fmt \<longrightarrow>
        a_cast (float_arith fmt) (- 10000) = Fin (- 10000)
        \<and> attention_scores (float_arith fmt) layer_id qf kf attention_mask ! i ! j
          = fl fmt (- 10000 * real (layer_id + 1))
        \<and> (overflow fmt \<le> 10000 * real (layer_id + 1) \<longrightarrow>
             attention_scores (float_arith fmt) layer_id qf kf attention_mask ! i ! j = NegInf)
        \<and> (10000 * real (layer_id + 1) < overflow fmt \<longrightarrow>
             attention_scores (float_arith fmt) layer_id qf kf attention_mask ! i ! j
               = Fin (rnd fmt (- 10000 * real (layer_id + 1)))))"
proof (intro conjI impI)
  show "attention_scores ar layer_id query_layer key_layer attention_mask ! i ! j =
       a_mul ar
         (if attention_mask ! i ! j then a_cast ar (- 10000)
          else a_dot ar
                 (map (\<lambda>x. a_div ar x
                         (a_mul ar (a_sqrt ar (a_cast ar (real (last_dim key_layer))))
                            (a_cast ar (real (layer_id + 1)))))
                    (query_layer ! i))
                 (key_layer ! j))
         (a_cast ar (real (layer_id + 1)))"
    using assms by (rule attention_scores_nth)
next
  have "length (attention_scores ar layer_id query_layer key_layer attention_mask)
             = length query_layer"
    using assms
    by (simp add: attention_scores_def masked_fill_def matmul_qk_def scale_query_def Let_def)
  then show "attention_probs ar sm layer_id query_layer key_layer attention_mask ! i
        = sm (attention_scores ar layer_id query_layer key_layer attention_mask ! i)"
    using assms(1) by (simp add: attention_probs_def)
next
  assume h: "i < length qr \<and> j < length kr \<and> length attention_mask = length qr
        \<and> length (attention_mask ! i) = length kr" and m: "attention_mask ! i ! j"
  from h have "attention_scores real_arith layer_id qr kr attention_mask ! i ! j =
       a_mul real_arith
         (if attention_mask ! i ! j then a_cast real_arith (- 10000)
          else a_dot real_arith
                 (map (\<lambda>x. a_div real_arith x
                         (a_mul real_arith (a_sqrt real_arith (a_cast real_arith (real (last_dim kr))))
                            (a_cast real_arith (real (layer_id + 1)))))
                    (qr ! i))
                 (kr ! j))
         (a_cast real_arith (real (layer_id + 1)))"
    by (intro attention_scores_nth) simp_all
  with m show "attention_scores real_arith layer_id qr kr attention_mask ! i ! j
             = - 10000 * real (layer_id + 1)"
    by (simp add: real_arith_def)
next
  assume h: "i < length qr \<and> j < length kr \<and> length attention_mask = length qr
        \<and> length (attention_mask ! i) = length kr" and m: "\<not> attention_mask ! i ! j"
  from h have "attention_scores real_arith layer_id qr kr attention_mask ! i ! j =
       a_mul real_arith
         (if attention_mask ! i ! j then a_cast real_arith (- 10000)
          else a_dot real_arith
                 (map (\<lambda>x. a_div real_arith x
                         (a_mul real_arith (a_sqrt real_arith (a_cast real_arith (real (last_dim kr))))
                            (a_cast real_arith (real (layer_id + 1)))))
                    (qr ! i))
                 (kr ! j))
         (a_cast real_arith (real (layer_id + 1)))"
    by (intro attention_scores_nth) simp_all
  with m show "attention_scores real_arith layer_id qr kr attention_mask ! i ! j
             = dot (qr ! i) (kr ! j) / sqrt (real (last_dim kr))"
    by (simp add: real_arith_def dot_scale_left)
next
  assume h: "i < length qf \<and> j < length kf \<and> length attention_mask = length qf
        \<and> length (attention_mask ! i) = length kf \<and> attention_mask ! i ! j
        \<and> rnd fmt (- 10000) = - 10000 \<and> rnd fmt (real (layer_id + 1)) = real (layer_id + 1)
        \<and> 10000 < overflow fmt \<and> real (layer_id + 1) < overflow fmt"
  from h show "a_cast (float_arith fmt) (- 10000) = Fin (- 10000)"
    by (simp add: float_arith_def fl_def)
  from h have "attention_scores (float_arith fmt) layer_id qf kf attention_mask ! i ! j =
       a_mul (float_arith fmt)
         (if attention_mask ! i ! j then a_cast (float_arith fmt) (- 10000)
          else a_dot (float_arith fmt)
                 (map (\<lambda>x. a_div (float_arith fmt) x
                         (a_mul (float_arith fmt) (a_sqrt (float_arith fmt) (a_cast (float_arith fmt) (real (last_dim kf))))
                            (a_cast (float_arith fmt) (real (layer_id + 1)))))
                    (qf ! i))
                 (kf ! j))
         (a_cast (float_arith fmt) (real (layer_id + 1)))"
    by (intro attention_scores_nth) simp_all
  with h have e: "attention_scores (float_arith fmt) layer_id qf kf attention_mask ! i ! j
      = score_mul fmt (fl fmt (- 10000)) (fl fmt (real (layer_id + 1)))"
    by (simp add: float_arith_def)
  from h have p: "score_mul fmt (fl fmt (- 10000)) (fl fmt (real (layer_id + 1)))
         = fl fmt (- 10000 * real (layer_id + 1))"
    by (intro float_masked_product) simp_all
  show r: "attention_scores (float_arith fmt) layer_id qf kf attention_mask ! i ! j
          = fl fmt (- 10000 * real (layer_id + 1))"
    by (simp only: e p)
  {
    assume "overflow fmt \<le> 10000 * real (layer_id + 1)"
    with h show "attention_scores (float_arith fmt) layer_id qf kf attention_mask ! i ! j = NegInf"
      by (simp add: r fl_def)
  }
  {
    assume "10000 * real (layer_id + 1) < overflow fmt"
    with h show "attention_scores (float_arith fmt) layer_id qf kf attention_mask ! i ! j
               = Fin (rnd fmt (- 10000 * real (layer_id + 1)))"
      by (simp add: r fl_def)
  }
qed

theorem attention_score_scaling_witness:
  "(0::nat) < length [[3, 4 :: real]] \<and> (1::nat) < length [[1, 0], [0, 2 :: real]]
   \<and> length [[False, True]] = length [[3, 4 :: real]]
   \<and> length ([[False, True]] ! 0) = length [[1, 0], [0, 2 :: real]]
   \<and> attention_scores real_arith 2 [[3, 4]] [[1, 0], [0, 2]] [[False, True]] ! 0 ! 1 = - 30000
   \<and> attention_scores real_arith 2 [[3, 4]] [[1, 0], [0, 2]] [[False, True]] ! 0 ! 0 = 3 / sqrt 2
   \<and> rnd (unrounded_format 65520) (- 10000) = - 10000
   \<and> 10000 < overflow (unrounded_format 65520)
   \<and> overflow (unrounded_format 65520) \<le> 10000 * real (6 + 1)
   \<and> attention_scores (float_arith (unrounded_format 65520)) 6 [[Fin 3, Fin 4]]
         [[Fin 1, Fin 0], [Fin 0, Fin 2]] [[False, True]] ! 0 ! 1 = NegInf
   \<and> 10000 * real (5 + 1) < overflow (unrounded_format 65520)
   \<and> attention_scores (float_arith (unrounded_format 65520)) 5 [[Fin 3, Fin 4]]
         [[Fin 1, Fin 0], [Fin 0, Fin 2]] [[False, True]] ! 0 ! 1 = Fin (- 60000)"
proof -
  have s: "(0::nat) < length [[3, 4 :: real]]" "(1::nat) < length [[1, 0], [0, 2 :: real]]"
    "length [[False, True]] = length [[3, 4 :: real]]"
    "length ([[False, True]] ! 0) = length [[1, 0], [0, 2 :: real]]"
    by simp_all
  have s0: "(0::nat) < length [[1, 0], [0, 2 :: real]]" by simp
  note t1 = attention_score_scaling [OF s, where ar = real_arith and layer_id = 2
      and sm = softmax and qr = "[[3, 4]]" and kr = "[[1, 0], [0, 2]]"
      and qf = "[[Fin 3, Fin 4]]" and kf = "[[Fin 1, Fin 0], [Fin 0, Fin 2]]"
      and fmt = "unrounded_format 65520"]
  note t0 = attention_score_scaling [OF s(1) s0 s(3,4), where ar = real_arith and layer_id = 2
      and sm = softmax and qr = "[[3, 4]]" and kr = "[[1, 0], [0, 2]]"
      and qf = "[[Fin 3, Fin 4]]" and kf = "[[Fin 1, Fin 0], [Fin 0, Fin 2]]"
      and fmt = "unrounded_format 65520"]
  note t6 = attention_score_scaling [OF s, where ar = real_arith and layer_id = 6
      and sm = softmax and qr = "[[3, 4]]" and kr = "[[1, 0], [0, 2]]"
      and qf = "[[Fin 3, Fin 4]]" and kf = "[[Fin 1, Fin 0], [Fin 0, Fin 2]]"
      and fmt = "unrounded_format 65520"]
  note t5 = attention_score_scaling [OF s, where ar = real_arith and layer_id = 5
      and sm = softmax and qr = "[[3, 4]]" and kr = "[[1, 0], [0, 2]]"
      and qf = "[[Fin 3, Fin 4]]" and kf = "[[Fin 1, Fin 0], [Fin 0, Fin 2]]"
      and fmt = "unrounded_format 65520"]
  have f: "rnd (unrounded_format 65520) (- 10000) = - 10000"
    "10000 < overflow (unrounded_format 65520)"
    "overflow (unrounded_format 65520) \<le> 10000 * real (6 + 1)"
    "10000 * real (5 + 1) < overflow (unrounded_format 65520)"
    by (simp_all add: unrounded_format_def)
  have a: "attention_scores real_arith 2 [[3, 4]] [[1, 0], [0, 2]] [[False, True]] ! 0 ! 1 = - 30000"
    using t1 [THEN conjunct2, THEN conjunct2, THEN conjunct1] by simp
  have b: "attention_scores real_arith 2 [[3, 4]] [[1, 0], [0, 2]] [[False, True]] ! 0 ! 0 = 3 / sqrt 2"
    using t0 [THEN conjunct2, THEN conjunct2, THEN conjunct1]
    by (simp add: dot_def last_dim_def)
  have c: "attention_scores (float_arith (unrounded_format 65520)) 6 [[Fin 3, Fin 4]]
         [[Fin 1, Fin 0], [Fin 0, Fin 2]] [[False, True]] ! 0 ! 1 = NegInf"
    using t6 [THEN conjunct2, THEN conjunct2, THEN conjunct2]
    by (simp add: unrounded_format_def fl_def)
  have d: "attention_scores (float_arith (unrounded_format 65520)) 5 [[Fin 3, Fin 4]]
         [[Fin 1, Fin 0], [Fin 0, Fin 2]] [[False, True]] ! 0 ! 1 = Fin (- 60000)"
    using t5 [THEN conjunct2, THEN conjunct2, THEN conjunct2]
    by (simp add: unrounded_format_def fl_def)
  show ?thesis using s f a b c d by (intro conjI)
qed

section \<open>Scaled residual wiring\<close>

lemma GLMBlock_construct_wiring:
  "GLMBlock_construct blk ln1 attn ln2 mlp x =
     scaled_residual (block_alpha blk)
       (ln2 (scaled_residual (block_alpha blk) (ln1 x) (attn (ln1 x))))
       (mlp (ln2 (scaled_residual (block_alpha blk) (ln1 x) (attn (ln1 x)))))"
  by (simp add: GLMBlock_construct_def Let_def)

lemma get_layer_alpha: "block_alpha (get_layer config layer_id) = sqrt 56"
  by (simp add: get_layer_def GLMBlock_init_def block_alpha_def)

text \<open>
  Claim C4, evaluated on a single-layer configuration. The block computes
  \<open>norm2 * alpha + mlp_out\<close> with \<open>norm2 = LayerNorm(norm1 * alpha + attn_out)\<close>
  (lemma \<open>GLMBlock_construct_wiring\<close>), but \<open>get_layer\<close> does not hand the configured
  \<open>num_layers\<close> to the block: the block of a model configured with one layer has
  \<open>alpha = sqrt(2 * 28)\<close>, not \<open>sqrt(2)\<close>. With identity layer norms and zero attention
  and GLU outputs the input \<open>[1]\<close> comes out as \<open>[56]\<close>, where \<open>alpha = sqrt(2)\<close> would
  give \<open>[2]\<close>.
\<close>

theorem single_layer_alpha:
  "num_layers single_layer_config = 1
   \<and> model_layers single_layer_config = [\<lparr>block_layer_id = 0, block_num_layers = 28\<rparr>]
   \<and> block_alpha (get_layer single_layer_config 0) = sqrt 56
   \<and> block_alpha (get_layer single_layer_config 0) \<noteq> sqrt (real (2 * num_layers single_layer_config))
   \<and> GLMBlock_construct (get_layer single_layer_config 0) (\<lambda>x. x) (\<lambda>x. map (\<lambda>_. 0) x) (\<lambda>x. x)
        (\<lambda>x. map (\<lambda>_. 0) x) [1] = [56]"
proof -
  have a: "block_alpha (get_layer single_layer_config 0) = sqrt 56"
    by (rule get_layer_alpha)
  have "sqrt 56 * sqrt 56 = 56" by simp
  then have w: "GLMBlock_construct (get_layer single_layer_config 0) (\<lambda>x. x) (\<lambda>x. map (\<lambda>_. 0) x) (\<lambda>x. x)
        (\<lambda>x. map (\<lambda>_. 0) x) [1] = [56]"
    by (simp add: GLMBlock_construct_wiring a scaled_residual_def)
  have ne: "sqrt 56 \<noteq> sqrt (real (2 * num_layers single_layer_config))"
    by (simp add: single_layer_config_def)
  show ?thesis
    using a w ne
    by (simp add: single_layer_config_def model_layers_def get_layer_def GLMBlock_init_def)
qed

section \<open>End-of-sequence marking\<close>

text \<open>
  With a single end-of-sequence id the flag of a row is cleared exactly when its new token
  is that id, and a cleared flag stays cleared whatever the ids are.
\<close>

lemma single_eos_flags:
  "update_unfinished (Some [e]) flags toks
     = Inr (map2 (\<lambda>u t. if t = e then 0 else u) flags toks)"
proof -
  have "(\<lambda>u t. u * not_eos_count [e] t) = (\<lambda>u t. if t = e then 0 else u)"
    by (intro ext) (simp add: not_eos_count_def)
  then show ?thesis by (simp add: update_unfinished_def)
qed

lemma finished_stays_finished: "(0 :: 64 word) * not_eos_count ids t = 0"
  by simp

text \<open>
  Claim C5, evaluated with two end-of-sequence ids. The claim has a row marked finished
  when its new token equals any one of the configured ids. With the ids \<open>[2, 3]\<close> and the
  new token 2 (or 3) the flag of the row stays 1, and a token that is neither id turns the
  flag into 2; only with the single id 2 does the token 2 clear the flag. The largest
  flag is then not 0 and the loop goes on.
\<close>

theorem eos_marking_two_ids:
  "update_unfinished (eos_id_list (EosList [2, 3])) [1] [2] = Inr [1]
   \<and> update_unfinished (eos_id_list (EosList [2, 3])) [1] [3] = Inr [1]
   \<and> update_unfinished (eos_id_list (EosList [2, 3])) [1] [7] = Inr [2]
   \<and> update_unfinished (eos_id_list (EosInt 2)) [1] [2] = Inr [0]
   \<and> tensor_max [1] = Inr 1"
  by (simp add: update_unfinished_def not_eos_count_def eos_id_list_def tensor_max_def)

section \<open>Tokens a prompt must contain\<close>

lemma takeWhile_before_member:
  "x \<in> set seq \<Longrightarrow> length (takeWhile (\<lambda>y. y \<noteq> x) seq) < length seq"
  by (induction seq) auto

lemma list_index_Inr: "x \<in> set seq \<Longrightarrow> \<exists>i. list_index seq x = Inr i \<and> i < length seq"
  by (simp add: list_index_def takeWhile_before_member)

lemma list_index_Inl: "x \<notin> set seq \<Longrightarrow> list_index seq x = Inl ValueError"
  by (simp add: list_index_def)

lemma map_result_Inr:
  "\<forall>x \<in> set xs. \<exists>y. f x = Inr y \<Longrightarrow> \<exists>ys. map_result f xs = Inr ys \<and> length ys = length xs"
  by (induction xs) auto

lemma map_result_Inl:
  "\<exists>x \<in> set xs. f x = Inl ValueError \<Longrightarrow> \<forall>x \<in> set xs. \<forall>e. f x = Inl e \<longrightarrow> e = ValueError
     \<Longrightarrow> map_result f xs = Inl ValueError"
proof (induction xs)
  case Nil
  then show ?case by simp
next
  case (Cons a xs)
  show ?case
  proof (cases "f a")
    case (Inl e)
    with Cons.prems(2) show ?thesis by simp
  next
    case (Inr y)
    with Cons.prems have "\<exists>x \<in> set xs. f x = Inl ValueError" by auto
    with Cons have "map_result f xs = Inl ValueError" by simp
    with Inr show ?thesis by simp
  qed
qed

lemma bos_lookup_Inl:
  "\<exists>seq \<in> set ids. bos \<notin> set seq \<Longrightarrow> map_result (\<lambda>seq. list_index seq bos) ids = Inl ValueError"
  by (rule map_result_Inl) (auto simp add: list_index_def)

lemma bos_lookup_Inr:
  "\<forall>seq \<in> set ids. bos \<in> set seq \<Longrightarrow>
   \<exists>cs. map_result (\<lambda>seq. list_index seq bos) ids = Inr cs \<and> length cs = length ids"
  by (rule map_result_Inr) (simp add: list_index_def)

lemma find_mask_positions_Inl:
  assumes "\<exists>seq \<in> set ids. gmask_token_id config \<notin> set seq \<and> mask_token_id config \<notin> set seq"
  shows "find_mask_positions config ids = Inl ValueError"
  unfolding find_mask_positions_def
  using assms by (intro map_result_Inl) (auto simp add: list_index_def Let_def)

lemma find_mask_positions_Inr:
  assumes "\<forall>seq \<in> set ids. gmask_token_id config \<in> set seq \<or> mask_token_id config \<in> set seq"
  shows "\<exists>found. find_mask_positions config ids = Inr found \<and> length found = length ids"
  unfolding find_mask_positions_def
  using assms by (intro map_result_Inr) (auto simp add: list_index_def Let_def)

lemma find_mask_positions_cases:
  "find_mask_positions config ids = Inl ValueError
   \<or> (\<exists>found. find_mask_positions config ids = Inr found \<and> length found = length ids
        \<and> (\<forall>seq \<in> set ids. gmask_token_id config \<in> set seq \<or> mask_token_id config \<in> set seq))"
  using find_mask_positions_Inl [of ids config] find_mask_positions_Inr [of ids config]
  by blast

lemma get_masks_Inl:
  "\<exists>seq \<in> set ids. bos_token_id config \<notin> set seq \<Longrightarrow> get_masks config ids = Inl ValueError"
  by (simp add: get_masks_def bos_lookup_Inl)

lemma get_position_ids_Inl:
  "\<exists>seq \<in> set ids. bos_token_id config \<notin> set seq \<Longrightarrow>
   get_position_ids config ids mp ug = Inl ValueError"
  by (simp add: get_position_ids_def bos_lookup_Inl)

lemma decode_position_ids_Inl:
  "\<exists>seq \<in> set ids. bos_token_id config \<notin> set seq \<Longrightarrow>
   decode_position_ids config ids mp = Inl ValueError"
  by (simp add: decode_position_ids_def bos_lookup_Inl)

lemma get_masks_Inr:
  "\<forall>seq \<in> set ids. bos_token_id config \<in> set seq \<Longrightarrow> \<exists>m. get_masks config ids = Inr m"
  using bos_lookup_Inr [of ids "bos_token_id config"] by (auto simp add: get_masks_def Let_def)

lemma get_position_ids_Inr:
  "\<forall>seq \<in> set ids. bos_token_id config \<in> set seq \<Longrightarrow>
   \<exists>p. get_position_ids config ids mp ug = Inr p"
  using bos_lookup_Inr [of ids "bos_token_id config"] by (auto simp add: get_position_ids_def Let_def)

lemma decode_position_ids_Inr:
  "\<forall>seq \<in> set ids. bos_token_id config \<in> set seq \<Longrightarrow>
   \<exists>p. decode_position_ids config ids mp = Inr p"
  using bos_lookup_Inr [of ids "bos_token_id config"] by (auto simp add: decode_position_ids_def Let_def)

lemma last_dim_pos:
  "ids \<noteq> [] \<Longrightarrow> \<forall>seq \<in> set ids. seq \<noteq> [] \<Longrightarrow> 0 < last_dim ids"
  by (cases ids) (auto simp add: last_dim_def)

lemma prepare_missing_mask_token:
  assumes "\<exists>seq \<in> set ids. gmask_token_id config \<notin> set seq \<and> mask_token_id config \<notin> set seq"
  shows "prepare_inputs_for_generation config ids kw = Inl ValueError"
  using find_mask_positions_Inl [OF assms]
  by (simp add: prepare_inputs_for_generation_def)

lemma prepare_missing_bos_mask:
  assumes "kw_bucket_size kw \<noteq> Some 0" "\<exists>seq \<in> set ids. bos_token_id config \<notin> set seq"
    "kw_start_pos kw = None" "\<forall>m. kw_attention_mask kw \<noteq> Some (MsBoolMask m)"
  shows "prepare_inputs_for_generation config ids kw = Inl ValueError"
proof -
  have gm: "(case kw_attention_mask kw of Some (MsBoolMask m) \<Rightarrow> Inr m
              | _ \<Rightarrow> get_masks config ids) = Inl ValueError"
    using assms(4) get_masks_Inl [OF assms(2)]
    by (auto split: option.splits attn_mask_arg.splits)
  from find_mask_positions_cases [of config ids] show ?thesis
  proof
    assume "find_mask_positions config ids = Inl ValueError"
    then show ?thesis by (simp add: prepare_inputs_for_generation_def)
  next
    assume "\<exists>found. find_mask_positions config ids = Inr found \<and> length found = length ids
        \<and> (\<forall>seq \<in> set ids. gmask_token_id config \<in> set seq \<or> mask_token_id config \<in> set seq)"
    then obtain found where f: "find_mask_positions config ids = Inr found" by blast
    show ?thesis
      using assms(1,3) gm
      by (auto simp add: prepare_inputs_for_generation_def f Let_def split: option.splits)
  qed
qed

lemma prepare_missing_bos_positions:
  assumes "kw_bucket_size kw \<noteq> Some 0" "\<exists>seq \<in> set ids. bos_token_id config \<notin> set seq"
    "kw_position_ids kw = None"
  shows "prepare_inputs_for_generation config ids kw = Inl ValueError"
proof -
  from find_mask_positions_cases [of config ids] show ?thesis
  proof
    assume "find_mask_positions config ids = Inl ValueError"
    then show ?thesis by (simp add: prepare_inputs_for_generation_def)
  next
    assume "\<exists>found. find_mask_positions config ids = Inr found \<and> length found = length ids
        \<and> (\<forall>seq \<in> set ids. gmask_token_id config \<in> set seq \<or> mask_token_id config \<in> set seq)"
    then obtain found where f: "find_mask_positions config ids = Inr found"
      and tok: "\<forall>seq \<in> set ids. gmask_token_id config \<in> set seq \<or> mask_token_id config \<in> set seq"
      by blast
    from assms(2) have ne: "ids \<noteq> []" by auto
    from tok have "\<forall>seq \<in> set ids. seq \<noteq> []" by auto
    with ne have pos: "0 < last_dim ids" by (rule last_dim_pos)
    show ?thesis
      using assms(1,3) pos get_position_ids_Inl [OF assms(2)] decode_position_ids_Inl [OF assms(2)]
        get_masks_Inl [OF assms(2)]
      by (auto simp add: prepare_inputs_for_generation_def f Let_def
          split: option.splits attn_mask_arg.splits)
  qed
qed

lemma prepare_succeeds:
  assumes "ids \<noteq> []" "\<forall>seq \<in> set ids. has_prompt_tokens config seq"
    "kw_bucket_size kw \<noteq> Some 0"
  shows "\<exists>r. prepare_inputs_for_generation config ids kw = Inr r"
proof -
  from assms(2) have tok: "\<forall>seq \<in> set ids. gmask_token_id config \<in> set seq \<or> mask_token_id config \<in> set seq"
    and bos: "\<forall>seq \<in> set ids. bos_token_id config \<in> set seq"
    by (simp_all add: has_prompt_tokens_def)
  from find_mask_positions_Inr [OF tok] obtain found where
    f: "find_mask_positions config ids = Inr found" by blast
  from bos have "\<forall>seq \<in> set ids. seq \<noteq> []" by auto
  with assms(1) have pos: "0 < last_dim ids" by (rule last_dim_pos)
  obtain m where m: "get_masks config ids = Inr m" using get_masks_Inr [OF bos] by blast
  obtain p where p: "get_position_ids config ids (map fst found) (map snd found) = Inr p"
    using get_position_ids_Inr [OF bos] by blast
  obtain q where q: "decode_position_ids config ids (map fst found) = Inr q"
    using decode_position_ids_Inr [OF bos] by blast
  show ?thesis
    using assms(3) pos
    by (auto simp add: prepare_inputs_for_generation_def f m p q Let_def
        split: option.splits attn_mask_arg.splits)
qed

lemma stream_generate_prepare_error:
  assumes "prepare_inputs_for_generation config ids kw = Inl e"
  shows "stream_generate config fwd eos stop ids kw s0 = Some (Raised e [] s0)"
  unfolding stream_generate_def
  by (subst stream_loop.simps) (simp add: generation_step_def assms)

lemma prepare_without_bos_prefill:
  assumes "ids \<noteq> []"
    "\<forall>seq \<in> set ids. gmask_token_id config \<in> set seq \<or> mask_token_id config \<in> set seq"
    "kw_bucket_size kw \<noteq> Some 0" "kw_attention_mask kw = Some (MsBoolMask m)"
    "kw_position_ids kw = Some p"
  shows "\<exists>r. prepare_inputs_for_generation config ids kw = Inr r"
proof -
  from find_mask_positions_Inr [OF assms(2)] obtain found where
    f: "find_mask_positions config ids = Inr found" by blast
  from assms(2) have "\<forall>seq \<in> set ids. seq \<noteq> []" by auto
  with assms(1) have pos: "0 < last_dim ids" by (rule last_dim_pos)
  show ?thesis
    using assms(3,4,5) pos
    by (auto simp add: prepare_inputs_for_generation_def f Let_def split: option.splits)
qed

lemma prepare_without_bos_decode:
  assumes "ids \<noteq> []"
    "\<forall>seq \<in> set ids. gmask_token_id config \<in> set seq \<or> mask_token_id config \<in> set seq"
    "kw_bucket_size kw \<noteq> Some 0" "kw_start_pos kw = Some sp"
    "kw_position_ids kw = Some p"
  shows "\<exists>r. prepare_inputs_for_generation config ids kw = Inr r"
proof -
  from find_mask_positions_Inr [OF assms(2)] obtain found where
    f: "find_mask_positions config ids = Inr found" by blast
  from assms(2) have "\<forall>seq \<in> set ids. seq \<noteq> []" by auto
  with assms(1) have pos: "0 < last_dim ids" by (rule last_dim_pos)
  show ?thesis
    using assms(3,4,5) pos
    by (auto simp add: prepare_inputs_for_generation_def f Let_def split: option.splits)
qed

lemma prepare_missing_bos_any_bucket:
  assumes "\<exists>seq \<in> set ids. bos_token_id config \<notin> set seq"
    and "(kw_start_pos kw = None \<and> (\<forall>m. kw_attention_mask kw \<noteq> Some (MsBoolMask m)))
         \<or> kw_position_ids kw = None"
  shows "\<exists>e. prepare_inputs_for_generation config ids kw = Inl e"
proof (cases "kw_bucket_size kw = Some 0")
  case False
  with assms show ?thesis
    using prepare_missing_bos_mask [of kw ids config]
      prepare_missing_bos_positions [of kw ids config] by blast
next
  case True
  from find_mask_positions_cases [of config ids] show ?thesis
  proof
    assume "find_mask_positions config ids = Inl ValueError"
    then show ?thesis by (simp add: prepare_inputs_for_generation_def)
  next
    assume "\<exists>found. find_mask_positions config ids = Inr found \<and> length found = length ids
        \<and> (\<forall>seq \<in> set ids. gmask_token_id config \<in> set seq \<or> mask_token_id config \<in> set seq)"
    then obtain found where f: "find_mask_positions config ids = Inr found" by blast
    show ?thesis using True by (simp add: prepare_inputs_for_generation_def f Let_def)
  qed
qed

text \<open>
  Claim C10. Preparing the inputs of a forward call looks up, in every row of the prompt,
  the gMASK token or else the MASK token: a row with neither raises ValueError. The bos
  token is looked up when the prefill has to build the attention mask (no mask of dtype
  \<^verbatim>\<open>mindspore.bool_\<close> was supplied; a numpy boolean mask is dropped and rebuilt) and
  whenever position ids have to be built (none were supplied): a row without it then
  raises ValueError (with a bucket size of 0 the error is the division by zero that comes
  before the lookup). The error ends the generator before any forward call: nothing is
  yielded and the state of the model is the initial one. A non-empty prompt whose rows
  hold a mask token and the bos token raises nothing; the bos token is not needed when
  position ids are supplied and either a mask of dtype \<^verbatim>\<open>mindspore.bool_\<close> is supplied
  or the call is a decode step.
\<close>

theorem prompt_token_precondition:
  "((\<exists>seq \<in> set ids. gmask_token_id config \<notin> set seq \<and> mask_token_id config \<notin> set seq) \<longrightarrow>
       prepare_inputs_for_generation config ids kw = Inl ValueError
       \<and> stream_generate config fwd eos stop ids kw s0 = Some (Raised ValueError [] s0))
   \<and> ((\<exists>seq \<in> set ids. bos_token_id config \<notin> set seq) \<and> kw_bucket_size kw \<noteq> Some 0
        \<and> kw_start_pos kw = None \<and> (\<forall>m. kw_attention_mask kw \<noteq> Some (MsBoolMask m)) \<longrightarrow>
       prepare_inputs_for_generation config ids kw = Inl ValueError
       \<and> stream_generate config fwd eos stop ids kw s0 = Some (Raised ValueError [] s0))
   \<and> ((\<exists>seq \<in> set ids. bos_token_id config \<notin> set seq) \<and> kw_bucket_size kw \<noteq> Some 0
        \<and> kw_start_pos kw = None \<and> kw_attention_mask kw = Some (NumpyBoolMask m) \<longrightarrow>
       prepare_inputs_for_generation config ids kw = Inl ValueError
       \<and> stream_generate config fwd eos stop ids kw s0 = Some (Raised ValueError [] s0))
   \<and> ((\<exists>seq \<in> set ids. bos_token_id config \<notin> set seq) \<and> kw_bucket_size kw \<noteq> Some 0
        \<and> kw_position_ids kw = None \<longrightarrow>
       prepare_inputs_for_generation config ids kw = Inl ValueError
       \<and> stream_generate config fwd eos stop ids kw s0 = Some (Raised ValueError [] s0))
   \<and> ((\<exists>seq \<in> set ids. bos_token_id config \<notin> set seq)
        \<and> ((kw_start_pos kw = None \<and> (\<forall>m. kw_attention_mask kw \<noteq> Some (MsBoolMask m)))
             \<or> kw_position_ids kw = None) \<longrightarrow>
       (\<exists>e. prepare_inputs_for_generation config ids kw = Inl e
          \<and> stream_generate config fwd eos stop ids kw s0 = Some (Raised e [] s0)))
   \<and> (ids \<noteq> [] \<and> (\<forall>seq \<in> set ids. has_prompt_tokens config seq)
        \<and> kw_bucket_size kw \<noteq> Some 0 \<longrightarrow>
       (\<exists>r. prepare_inputs_for_generation config ids kw = Inr r))
   \<and> (ids \<noteq> []
        \<and> (\<forall>seq \<in> set ids. gmask_token_id config \<in> set seq \<or> mask_token_id config \<in> set seq)
        \<and> kw_bucket_size kw \<noteq> Some 0 \<and> kw_position_ids kw = Some p
        \<and> (kw_attention_mask kw = Some (MsBoolMask m') \<or> kw_start_pos kw = Some sp) \<longrightarrow>
       (\<exists>r. prepare_inputs_for_generation config ids kw = Inr r))"
proof (intro conjI impI)
  assume h: "\<exists>seq \<in> set ids. gmask_token_id config \<notin> set seq \<and> mask_token_id config \<notin> set seq"
  then show e: "prepare_inputs_for_generation config ids kw = Inl ValueError"
    by (rule prepare_missing_mask_token)
  then show "stream_generate config fwd eos stop ids kw s0 = Some (Raised ValueError [] s0)"
    by (rule stream_generate_prepare_error)
next
  assume h: "(\<exists>seq \<in> set ids. bos_token_id config \<notin> set seq) \<and> kw_bucket_size kw \<noteq> Some 0
        \<and> kw_start_pos kw = None \<and> (\<forall>m. kw_attention_mask kw \<noteq> Some (MsBoolMask m))"
  then show e: "prepare_inputs_for_generation config ids kw = Inl ValueError"
    using prepare_missing_bos_mask [of kw ids config] by blast
  then show "stream_generate config fwd eos stop ids kw s0 = Some (Raised ValueError [] s0)"
    by (rule stream_generate_prepare_error)
next
  assume h: "(\<exists>seq \<in> set ids. bos_token_id config \<notin> set seq) \<and> kw_bucket_size kw \<noteq> Some 0
        \<and> kw_start_pos kw = None \<and> kw_attention_mask kw = Some (NumpyBoolMask m)"
  then have "\<forall>m. kw_attention_mask kw \<noteq> Some (MsBoolMask m)" by simp
  with h show e: "prepare_inputs_for_generation config ids kw = Inl ValueError"
    using prepare_missing_bos_mask [of kw ids config] by blast
  then show "stream_generate config fwd eos stop ids kw s0 = Some (Raised ValueError [] s0)"
    by (rule stream_generate_prepare_error)
next
  assume h: "(\<exists>seq \<in> set ids. bos_token_id config \<notin> set seq) \<and> kw_bucket_size kw \<noteq> Some 0
        \<and> kw_position_ids kw = None"
  then show e: "prepare_inputs_for_generation config ids kw = Inl ValueError"
    using prepare_missing_bos_positions [of kw ids config] by blast
  then show "stream_generate config fwd eos stop ids kw s0 = Some (Raised ValueError [] s0)"
    by (rule stream_generate_prepare_error)
next
  assume h: "(\<exists>seq \<in> set ids. bos_token_id config \<notin> set seq)
        \<and> ((kw_start_pos kw = None \<and> (\<forall>m. kw_attention_mask kw \<noteq> Some (MsBoolMask m)))
             \<or> kw_position_ids kw = None)"
  then obtain e where e: "prepare_inputs_for_generation config ids kw = Inl e"
    using prepare_missing_bos_any_bucket [of ids config kw] by blast
  from stream_generate_prepare_error [OF e]
  have "stream_generate config fwd eos stop ids kw s0 = Some (Raised e [] s0)" .
  with e show "\<exists>e. prepare_inputs_for_generation config ids kw = Inl e
          \<and> stream_generate config fwd eos stop ids kw s0 = Some (Raised e [] s0)"
    by blast
next
  assume "ids \<noteq> [] \<and> (\<forall>seq \<in> set ids. has_prompt_tokens config seq)
        \<and> kw_bucket_size kw \<noteq> Some 0"
  then show "\<exists>r. prepare_inputs_for_generation config ids kw = Inr r"
    using prepare_succeeds [of ids config kw] by blast
next
  assume "ids \<noteq> []
        \<and> (\<forall>seq \<in> set ids. gmask_token_id config \<in> set seq \<or> mask_token_id config \<in> set seq)
        \<and> kw_bucket_size kw \<noteq> Some 0 \<and> kw_position_ids kw = Some p
        \<and> (kw_attention_mask kw = Some (MsBoolMask m') \<or> kw_start_pos kw = Some sp)"
  then show "\<exists>r. prepare_inputs_for_generation config ids kw = Inr r"
    using prepare_without_bos_prefill [of ids config kw m' p]
      prepare_without_bos_decode [of ids config kw sp p] by blast
qed

theorem prompt_token_precondition_witness:
  "(\<exists>seq \<in> set [[5, 130004]]. gmask_token_id single_layer_config \<notin> set seq
        \<and> mask_token_id single_layer_config \<notin> set seq)
   \<and> prepare_inputs_for_generation single_layer_config [[5, 130004]] no_kwargs = Inl ValueError
   \<and> stream_generate single_layer_config (constant_forward 7) (EosInt 2) (max_length_criteria 5)
        [[5, 130004]] no_kwargs () = Some (Raised ValueError [] ())
   \<and> (\<exists>seq \<in> set [[5, 130001]]. bos_token_id single_layer_config \<notin> set seq)
   \<and> kw_bucket_size no_kwargs \<noteq> Some 0 \<and> kw_start_pos no_kwargs = None
   \<and> (\<forall>m. kw_attention_mask no_kwargs \<noteq> Some (MsBoolMask m)) \<and> kw_position_ids no_kwargs = None
   \<and> prepare_inputs_for_generation single_layer_config [[5, 130001]] no_kwargs = Inl ValueError
   \<and> stream_generate single_layer_config (constant_forward 7) (EosInt 2) (max_length_criteria 5)
        [[5, 130001]] no_kwargs () = Some (Raised ValueError [] ())
   \<and> kw_bucket_size numpy_mask_kwargs \<noteq> Some 0 \<and> kw_start_pos numpy_mask_kwargs = None
   \<and> kw_attention_mask numpy_mask_kwargs = Some (NumpyBoolMask [[[False, True], [False, False]]])
   \<and> prepare_inputs_for_generation single_layer_config [[5, 130001]] numpy_mask_kwargs
        = Inl ValueError
   \<and> stream_generate single_layer_config (constant_forward 7) (EosInt 2) (max_length_criteria 5)
        [[5, 130001]] numpy_mask_kwargs () = Some (Raised ValueError [] ())
   \<and> prompt3 \<noteq> [] \<and> list_all (has_prompt_tokens single_layer_config) prompt3
   \<and> (\<exists>r. prepare_inputs_for_generation single_layer_config prompt3 no_kwargs = Inr r)"
proof -
  note a = prompt_token_precondition [where config = single_layer_config and ids = "[[5, 130004]]"
      and kw = no_kwargs and fwd = "constant_forward 7" and eos = "EosInt 2"
      and stop = "max_length_criteria 5" and ?s0.0 = "()" and m = "[]" and m' = "[]"
      and p = "Pos1D []" and sp = 0]
  note b = prompt_token_precondition [where config = single_layer_config and ids = "[[5, 130001]]"
      and kw = no_kwargs and fwd = "constant_forward 7" and eos = "EosInt 2"
      and stop = "max_length_criteria 5" and ?s0.0 = "()" and m = "[]" and m' = "[]"
      and p = "Pos1D []" and sp = 0]
  note n = prompt_token_precondition [where config = single_layer_config and ids = "[[5, 130001]]"
      and kw = numpy_mask_kwargs and fwd = "constant_forward 7" and eos = "EosInt 2"
      and stop = "max_length_criteria 5" and ?s0.0 = "()"
      and m = "[[[False, True], [False, False]]]" and m' = "[]"
      and p = "Pos1D []" and sp = 0]
  note c = prompt_token_precondition [where config = single_layer_config and ids = prompt3
      and kw = no_kwargs and fwd = "constant_forward 7" and eos = "EosInt 2"
      and stop = "max_length_criteria 5" and ?s0.0 = "()" and m = "[]" and m' = "[]"
      and p = "Pos1D []" and sp = 0]
  have ha: "\<exists>seq \<in> set [[5, 130004]]. gmask_token_id single_layer_config \<notin> set seq
        \<and> mask_token_id single_layer_config \<notin> set seq"
    by (simp add: single_layer_config_def)
  have hb1: "\<exists>seq \<in> set [[5, 130001]]. bos_token_id single_layer_config \<notin> set seq"
    by (simp add: single_layer_config_def)
  have hk: "kw_bucket_size no_kwargs \<noteq> Some 0" "kw_start_pos no_kwargs = None"
    "\<forall>m. kw_attention_mask no_kwargs \<noteq> Some (MsBoolMask m)" "kw_position_ids no_kwargs = None"
    by (simp_all add: no_kwargs_def)
  have hn: "kw_bucket_size numpy_mask_kwargs \<noteq> Some 0" "kw_start_pos numpy_mask_kwargs = None"
    "kw_attention_mask numpy_mask_kwargs = Some (NumpyBoolMask [[[False, True], [False, False]]])"
    by (simp_all add: numpy_mask_kwargs_def)
  have hc: "prompt3 \<noteq> []" "\<forall>seq \<in> set prompt3. has_prompt_tokens single_layer_config seq"
    by (simp_all add: prompt3_def has_prompt_tokens_def single_layer_config_def)
  have ra: "prepare_inputs_for_generation single_layer_config [[5, 130004]] no_kwargs = Inl ValueError
       \<and> stream_generate single_layer_config (constant_forward 7) (EosInt 2) (max_length_criteria 5)
            [[5, 130004]] no_kwargs () = Some (Raised ValueError [] ())"
    using mp [OF a [THEN conjunct1] ha] .
  have rb: "prepare_inputs_for_generation single_layer_config [[5, 130001]] no_kwargs = Inl ValueError
       \<and> stream_generate single_layer_config (constant_forward 7) (EosInt 2) (max_length_criteria 5)
            [[5, 130001]] no_kwargs () = Some (Raised ValueError [] ())"
    using b [THEN conjunct2, THEN conjunct1] hb1 hk by blast
  have rn: "prepare_inputs_for_generation single_layer_config [[5, 130001]] numpy_mask_kwargs
            = Inl ValueError
       \<and> stream_generate single_layer_config (constant_forward 7) (EosInt 2) (max_length_criteria 5)
            [[5, 130001]] numpy_mask_kwargs () = Some (Raised ValueError [] ())"
    using n [THEN conjunct2, THEN conjunct2, THEN conjunct1] hb1 hn by blast
  have rc: "\<exists>r. prepare_inputs_for_generation single_layer_config prompt3 no_kwargs = Inr r"
    using c [THEN conjunct2, THEN conjunct2, THEN conjunct2, THEN conjunct2, THEN conjunct2,
        THEN conjunct1] hc hk(1) by blast
  have hc': "list_all (has_prompt_tokens single_layer_config) prompt3"
    using hc(2) by (simp add: list_all_iff)
  show ?thesis
    using ha ra hb1 hk rb hn rn hc(1) hc' rc by blast
qed

section \<open>The position handed to the first decode step\<close>

text \<open>
  Claim C6, evaluated on a prompt of length 3. The prefill runs with \<open>start_pos = 0\<close>; the
  step stores \<open>start_pos = 4\<close>, the length after the first generated token has been
  appended, and the first decode step receives \<open>start_pos = 4\<close>, not the prompt length 3.
  In the cache of an attention layer a prefill of three positions fills the slots 0, 1, 2
  and the decode step at \<open>start_pos = 4\<close> writes slot 4: slot 3 is never written and
  stays zero inside the prefix that attention reads.
\<close>

theorem first_step_start_pos:
  "last_dim prompt3 = 3
   \<and> prepare_inputs_for_generation single_layer_config prompt3 no_kwargs
       = Inr (prompt3, Pos2D [[[0, 1, 1], [0, 0, 1]]],
              [[[False, False, True], [False, False, True], [False, False, False]]], 0, 512)
   \<and> generation_step single_layer_config (constant_forward 7) (Some [2])
        \<lparr>gs_input_ids = prompt3, gs_kwargs = no_kwargs, gs_unfinished = [1], gs_model = ()\<rparr>
       = Inr \<lparr>gs_input_ids = [[5, 130001, 130004, 7]],
              gs_kwargs = no_kwargs\<lparr>kw_start_pos := Some 4\<rparr>,
              gs_unfinished = [1], gs_model = ()\<rparr>
   \<and> prepare_inputs_for_generation single_layer_config [[5, 130001, 130004, 7]]
         (no_kwargs\<lparr>kw_start_pos := Some 4\<rparr>)
       = Inr ([[7]], Pos2D [[[1], [2]]], [[[False]]], 4, 512)
   \<and> attention_fn_cache (init_cache 6 :: int kv_cache) 3 [11, 12, 13] [21, 22, 23] 0 6
       = Inr (\<lparr>cache_k = [11, 12, 13, 0, 0, 0], cache_v = [21, 22, 23, 0, 0, 0]\<rparr>,
              [11, 12, 13, 0, 0, 0], [21, 22, 23, 0, 0, 0])
   \<and> attention_fn_cache \<lparr>cache_k = [11, 12, 13, 0, 0, 0 :: int], cache_v = [21, 22, 23, 0, 0, 0]\<rparr>
         1 [14] [24] 4 6
       = Inr (\<lparr>cache_k = [11, 12, 13, 0, 14, 0], cache_v = [21, 22, 23, 0, 24, 0]\<rparr>,
              [11, 12, 13, 0, 14, 0], [21, 22, 23, 0, 24, 0])"
proof -
  have driver: "last_dim prompt3 = 3
   \<and> prepare_inputs_for_generation single_layer_config prompt3 no_kwargs
       = Inr (prompt3, Pos2D [[[0, 1, 1], [0, 0, 1]]],
              [[[False, False, True], [False, False, True], [False, False, False]]], 0, 512)
   \<and> generation_step single_layer_config (constant_forward 7) (Some [2])
        \<lparr>gs_input_ids = prompt3, gs_kwargs = no_kwargs, gs_unfinished = [1], gs_model = ()\<rparr>
       = Inr \<lparr>gs_input_ids = [[5, 130001, 130004, 7]],
              gs_kwargs = no_kwargs\<lparr>kw_start_pos := Some 4\<rparr>,
              gs_unfinished = [1], gs_model = ()\<rparr>
   \<and> prepare_inputs_for_generation single_layer_config [[5, 130001, 130004, 7]]
         (no_kwargs\<lparr>kw_start_pos := Some 4\<rparr>)
       = Inr ([[7]], Pos2D [[[1], [2]]], [[[False]]], 4, 512)"
    by (simp add: prompt3_def single_layer_config_def no_kwargs_def prepare_eval step_eval)
  have prefill: "attention_fn_cache (init_cache 6 :: int kv_cache) 3 [11, 12, 13] [21, 22, 23] 0 6
       = Inr (\<lparr>cache_k = [11, 12, 13, 0, 0, 0], cache_v = [21, 22, 23, 0, 0, 0]\<rparr>,
              [11, 12, 13, 0, 0, 0], [21, 22, 23, 0, 0, 0])"
    using attention_fn_cache_prefill [of "[11, 12, 13]" "[21, 22, 23]" "init_cache 6 :: int kv_cache" 0 6]
    by (simp add: init_cache_def numeral_eq_Suc)
  have decode: "attention_fn_cache \<lparr>cache_k = [11, 12, 13, 0, 0, 0 :: int], cache_v = [21, 22, 23, 0, 0, 0]\<rparr>
         1 [14] [24] 4 6
       = Inr (\<lparr>cache_k = [11, 12, 13, 0, 14, 0], cache_v = [21, 22, 23, 0, 24, 0]\<rparr>,
              [11, 12, 13, 0, 14, 0], [21, 22, 23, 0, 24, 0])"
    using attention_fn_cache_decode [of 4 "\<lparr>cache_k = [11, 12, 13, 0, 0, 0 :: int], cache_v = [21, 22, 23, 0, 0, 0]\<rparr>" 14 24 6]
    by (simp add: numeral_eq_Suc)
  show ?thesis using driver prefill decode by (intro conjI) (simp_all only: simp_thms)
qed

section \<open>Termination and yields of the generation loop\<close>

text \<open>
  Claim C7 as stated fails: with a prompt of length 3, maximum length 5, a single
  end-of-sequence id that never occurs and the max-length check as stopping criterion,
  two tokens are appended and the loop stops at length 5, but only one sequence is
  yielded (the one of length 4), not one per appended token.
\<close>

theorem max_length_run_yields:
  "last_dim prompt3 = 3
   \<and> stream_generate single_layer_config (constant_forward 7) (EosInt 2) (max_length_criteria 5)
        prompt3 no_kwargs ()
       = Some (Finished [[[5, 130001, 130004, 7]]] [[5, 130001, 130004, 7, 7]] ())
   \<and> length [[[5, 130001, 130004, 7 :: int]]] \<noteq> 5 - 3"
  by (simp add: stream_generate_def stream_loop.simps eos_id_list_def tensor_max_def
      max_length_criteria_def prompt3_def single_layer_config_def no_kwargs_def
      prepare_eval step_eval)

lemma append_tokens:
  assumes "length toks = length ids"
    "list_all (\<lambda>seq. length seq = n \<and> has_prompt_tokens config seq) ids"
  shows "length (map2 (\<lambda>seq t. seq @ [t]) ids toks) = length ids
     \<and> list_all (\<lambda>seq. length seq = Suc n \<and> has_prompt_tokens config seq)
         (map2 (\<lambda>seq t. seq @ [t]) ids toks)
     \<and> map (take n) (map2 (\<lambda>seq t. seq @ [t]) ids toks) = ids"
  using assms
proof (induction ids arbitrary: toks)
  case Nil
  then show ?case by simp
next
  case (Cons a ids)
  then obtain t ts where toks: "toks = t # ts" by (cases toks) auto
  with Cons show ?case by (auto simp add: has_prompt_tokens_def)
qed

lemma last_dim_uniform:
  "ids \<noteq> [] \<Longrightarrow> list_all (\<lambda>seq. length seq = n \<and> P seq) ids \<Longrightarrow> last_dim ids = n"
  by (cases ids) (auto simp add: last_dim_def)

lemma map2_append_length:
  "length (map2 (@) c (d[1 := v])) = min (length c) (length d)"
  by simp

lemma update_model_kwargs_usable:
  assumes "kwargs_usable kw"
  shows "\<exists>kw'. update_model_kwargs_for_generation sp kw = Inr kw' \<and> kwargs_usable kw'
           \<and> kw_start_pos kw' = Some sp"
proof -
  define kw1 where "kw1 =
     (case kw_attention_mask kw of
        Some (MsBoolMask m) \<Rightarrow>
          kw\<lparr>kw_start_pos := Some sp, kw_attention_mask := Some (MsBoolMask (map extend_mask_rows m))\<rparr>
      | _ \<Rightarrow> kw\<lparr>kw_start_pos := Some sp\<rparr>)"
  have k1: "kw_position_ids kw1 = kw_position_ids kw" "kw_bucket_size kw1 = kw_bucket_size kw"
    "kw_start_pos kw1 = Some sp"
    by (simp_all add: kw1_def split: option.splits attn_mask_arg.splits)
  have upd: "update_model_kwargs_for_generation sp kw =
     (case kw_position_ids kw of
        None \<Rightarrow> Inr kw1
      | Some p \<Rightarrow> (case extend_position_ids p of
                     Inl e \<Rightarrow> Inl e
                   | Inr p' \<Rightarrow> Inr (kw1\<lparr>kw_position_ids := Some p'\<rparr>)))"
    unfolding kw1_def update_model_kwargs_for_generation_def Let_def
    by (cases "kw_attention_mask kw"; cases "kw_position_ids kw")
      (auto split: attn_mask_arg.splits sum.splits)
  show ?thesis
  proof (cases "kw_position_ids kw")
    case None
    have "kwargs_usable kw1" using assms None k1 by (simp add: kwargs_usable_def)
    then show ?thesis using None k1 by (simp add: upd)
  next
    case (Some p)
    with assms obtain chans where p: "p = Pos2D chans"
      and ch: "list_all (\<lambda>c. 2 \<le> length c) chans"
      by (cases p) (auto simp add: kwargs_usable_def)
    from ch have nex: "\<not> list_ex (\<lambda>c. length c < 2) chans"
      by (auto simp add: list_all_iff list_ex_iff)
    define chans' where "chans' = map (\<lambda>c. let new_position_id = map last_slice c;
                      new_position_id = new_position_id[1 := map (\<lambda>v. v + 1) (new_position_id ! 1)]
                  in map2 (@) c new_position_id) chans"
    have ext: "extend_position_ids p = Inr (Pos2D chans')"
      using nex by (simp add: extend_position_ids_def p chans'_def)
    have ch': "list_all (\<lambda>c. 2 \<le> length c) chans'"
      using ch by (auto simp add: list_all_iff Let_def chans'_def)
    have "kwargs_usable (kw1\<lparr>kw_position_ids := Some (Pos2D chans')\<rparr>)"
      using assms k1 ch' by (simp add: kwargs_usable_def)
    then show ?thesis using Some k1 by (simp add: upd ext)
  qed
qed

lemma map2_flags_keep:
  "length toks = b \<Longrightarrow> e \<notin> set toks \<Longrightarrow>
   map2 (\<lambda>u t. u * not_eos_count [e] t) (replicate b (1::64 word)) toks = replicate b 1"
proof (induction toks arbitrary: b)
  case Nil
  then show ?case by simp
next
  case (Cons t toks)
  then obtain b' where b: "b = Suc b'" by (cases b) auto
  with Cons show ?case by (auto simp add: not_eos_count_def)
qed

lemma update_unfinished_keep:
  "length toks = b \<Longrightarrow> e \<notin> set toks \<Longrightarrow>
   update_unfinished (Some [e]) (replicate b 1) toks = Inr (replicate b 1)"
  by (simp add: update_unfinished_def map2_flags_keep)

lemma fold_max_ones: "(max (1::int) ^^ k) 1 = 1"
  by (induction k) simp_all

lemma tensor_max_ones: "0 < b \<Longrightarrow> tensor_max (replicate b 1) = Inr 1"
  by (cases b) (simp_all add: tensor_max_def fold_max_ones)

lemma prepare_batch:
  "prepare_inputs_for_generation config ids kw = Inr inp \<Longrightarrow> length (fst inp) = length ids"
  by (auto simp add: prepare_inputs_for_generation_def Let_def
      split: sum.splits option.splits if_splits attn_mask_arg.splits)

lemma generation_step_invariant:
  assumes inv: "loop_invariant config b n st"
    and fwd: "\<forall>s inp. length (fst inp) = b
                \<longrightarrow> length (snd (fwd s inp)) = b \<and> e \<notin> set (snd (fwd s inp))"
  shows "\<exists>st'. generation_step config fwd (Some [e]) st = Inr st'
           \<and> loop_invariant config b (Suc n) st'
           \<and> map (take n) (gs_input_ids st') = gs_input_ids st
           \<and> kw_start_pos (gs_kwargs st') = Some (Suc n)"
proof -
  let ?ids = "gs_input_ids st"
  from inv have b: "0 < b" and len: "length ?ids = b"
    and rows: "list_all (\<lambda>seq. length seq = n \<and> has_prompt_tokens config seq) ?ids"
    and kw: "kwargs_usable (gs_kwargs st)" and unf: "gs_unfinished st = replicate b 1"
    by (simp_all add: loop_invariant_def)
  from b len have ne: "?ids \<noteq> []" by auto
  from rows have tok: "\<forall>seq \<in> set ?ids. has_prompt_tokens config seq"
    by (simp add: list_all_iff)
  from kw have bk: "kw_bucket_size (gs_kwargs st) \<noteq> Some 0" by (simp add: kwargs_usable_def)
  from prepare_succeeds [OF ne tok bk] obtain inp where
    prep: "prepare_inputs_for_generation config ?ids (gs_kwargs st) = Inr inp" by blast
  obtain s' toks where f: "fwd (gs_model st) inp = (s', toks)" by (cases "fwd (gs_model st) inp")
  from prepare_batch [OF prep] len have "length (fst inp) = b" by simp
  with fwd f have tl: "length toks = b" and te: "e \<notin> set toks"
    by (metis snd_conv)+
  let ?ids' = "map2 (\<lambda>seq t. seq @ [t]) ?ids toks"
  from tl len have tl': "length toks = length ?ids" by simp
  note app = append_tokens [OF tl' rows]
  from app ne have ne': "?ids' \<noteq> []" by auto
  from app have rows': "list_all (\<lambda>seq. length seq = Suc n \<and> has_prompt_tokens config seq) ?ids'"
    by blast
  have ld: "last_dim ?ids' = Suc n" using ne' rows' by (rule last_dim_uniform)
  from update_model_kwargs_usable [OF kw, of "Suc n"] obtain kw' where
    upd: "update_model_kwargs_for_generation (Suc n) (gs_kwargs st) = Inr kw'"
    and kw': "kwargs_usable kw'" and sp: "kw_start_pos kw' = Some (Suc n)" by blast
  have fl: "update_unfinished (Some [e]) (gs_unfinished st) toks = Inr (replicate b 1)"
    using tl te by (simp add: unf update_unfinished_keep)
  let ?st' = "\<lparr>gs_input_ids = ?ids', gs_kwargs = kw', gs_unfinished = replicate b 1,
               gs_model = s'\<rparr>"
  have step: "generation_step config fwd (Some [e]) st = Inr ?st'"
    using tl' by (simp add: generation_step_def prep f ld upd fl Let_def)
  have inv': "loop_invariant config b (Suc n) ?st'"
    using b app len kw' rows' by (simp add: loop_invariant_def)
  show ?thesis using step inv' app sp by auto
qed

lemma take_take_rows: "map (take n) (map (take (Suc n)) xs) = map (take n) xs"
  by (simp add: min_def)

lemma stream_loop_max_length:
  assumes fwd: "\<forall>s inp. length (fst inp) = b
                \<longrightarrow> length (snd (fwd s inp)) = b \<and> e \<notin> set (snd (fwd s inp))"
  shows "n < L \<Longrightarrow> loop_invariant config b n st \<Longrightarrow>
     \<exists>final s'. stream_loop config fwd (Some [e]) (max_length_criteria L) st acc
          = Some (Finished (acc @ map (\<lambda>m. map (take m) final) [Suc n..<L]) final s')
        \<and> list_all (\<lambda>seq. length seq = L) final \<and> length final = b
        \<and> map (take n) final = gs_input_ids st"
proof (induction "L - Suc n" arbitrary: n st acc)
  case 0
  then have L: "L = Suc n" by simp
  from generation_step_invariant [OF "0.prems"(2) fwd] obtain st' where
    step: "generation_step config fwd (Some [e]) st = Inr st'"
    and inv': "loop_invariant config b (Suc n) st'"
    and pre: "map (take n) (gs_input_ids st') = gs_input_ids st" by blast
  from inv' have b: "0 < b" and len: "length (gs_input_ids st') = b"
    and rows: "list_all (\<lambda>seq. length seq = Suc n \<and> has_prompt_tokens config seq) (gs_input_ids st')"
    and unf: "gs_unfinished st' = replicate b 1"
    by (simp_all add: loop_invariant_def)
  from b len have ne: "gs_input_ids st' \<noteq> []" by auto
  have ld: "last_dim (gs_input_ids st') = Suc n" using ne rows by (rule last_dim_uniform)
  have "stream_loop config fwd (Some [e]) (max_length_criteria L) st acc
          = Some (Finished acc (gs_input_ids st') (gs_model st'))"
    using b by (subst stream_loop.simps)
      (simp add: step unf tensor_max_ones max_length_criteria_def ld L)
  moreover have "list_all (\<lambda>seq. length seq = L) (gs_input_ids st')"
    using rows by (simp add: list_all_iff L)
  ultimately show ?case using len pre by (simp add: L)
next
  case (Suc k)
  then have lt: "Suc n < L" and k: "k = L - Suc (Suc n)" by simp_all
  from generation_step_invariant [OF Suc.prems(2) fwd] obtain st' where
    step: "generation_step config fwd (Some [e]) st = Inr st'"
    and inv': "loop_invariant config b (Suc n) st'"
    and pre: "map (take n) (gs_input_ids st') = gs_input_ids st" by blast
  from inv' have b: "0 < b" and len: "length (gs_input_ids st') = b"
    and rows: "list_all (\<lambda>seq. length seq = Suc n \<and> has_prompt_tokens config seq) (gs_input_ids st')"
    and unf: "gs_unfinished st' = replicate b 1"
    by (simp_all add: loop_invariant_def)
  from b len have ne: "gs_input_ids st' \<noteq> []" by auto
  have ld: "last_dim (gs_input_ids st') = Suc n" using ne rows by (rule last_dim_uniform)
  have unfold: "stream_loop config fwd (Some [e]) (max_length_criteria L) st acc
          = stream_loop config fwd (Some [e]) (max_length_criteria L) st' (acc @ [gs_input_ids st'])"
    using b lt by (subst stream_loop.simps)
      (simp add: step unf tensor_max_ones max_length_criteria_def ld)
  from Suc.hyps(1) [OF k lt inv', of "acc @ [gs_input_ids st']"] obtain final s' where
    run: "stream_loop config fwd (Some [e]) (max_length_criteria L) st' (acc @ [gs_input_ids st'])
          = Some (Finished ((acc @ [gs_input_ids st']) @ map (\<lambda>m. map (take m) final) [Suc (Suc n)..<L])
                    final s')"
    and fin: "list_all (\<lambda>seq. length seq = L) final" "length final = b"
    and pre': "map (take (Suc n)) final = gs_input_ids st'" by blast
  have ys: "(acc @ [gs_input_ids st']) @ map (\<lambda>m. map (take m) final) [Suc (Suc n)..<L]
        = acc @ map (\<lambda>m. map (take m) final) [Suc n..<L]"
    using lt pre' by (simp add: upt_conv_Cons)
  have "map (take n) final = map (take n) (map (take (Suc n)) final)"
    by (simp only: take_take_rows)
  also have "\<dots> = gs_input_ids st" by (simp only: pre' pre)
  finally have pre0: "map (take n) final = gs_input_ids st" .
  show ?case using unfold run ys fin pre0 by (intro exI [of _ final] exI [of _ s']) simp
qed

text \<open>
  Claim C7, amended. For a non-empty batch of prompts of length \<open>P\<close> holding the mask and
  bos tokens, a maximum length \<open>L > P\<close>, usable keyword arguments, one end-of-sequence id
  (given as an integer or as a list of one) that the forward function never produces, and the max-length check as stopping
  criterion, the generator ends without an error: exactly \<open>L - P\<close> tokens have been
  appended to every row (the final rows have length \<open>L\<close> and begin with the prompt), and
  the sequences yielded are the \<open>L - P - 1\<close> prefixes of the final rows of lengths
  \<open>P + 1, ..., L - 1\<close>, in order: every step but the last yields, and the last step,
  which reaches length \<open>L\<close>, leaves the loop without yielding.
\<close>

theorem max_length_generation:
  assumes "ids \<noteq> []"
    and "\<forall>seq \<in> set ids. length seq = P \<and> has_prompt_tokens config seq"
    and "P < L"
    and "kwargs_usable kw"
    and "\<forall>s inp. length (fst inp) = length ids
            \<longrightarrow> length (snd (fwd s inp)) = length ids \<and> e \<notin> set (snd (fwd s inp))"
    and "eos_id_list eos = Some [e]"
  shows "\<exists>final s'.
      stream_generate config fwd eos (max_length_criteria L) ids kw s0
        = Some (Finished (map (\<lambda>m. map (take m) final) [Suc P..<L]) final s')
      \<and> (\<forall>seq \<in> set final. length seq = L)
      \<and> length final = length ids
      \<and> map (take P) final = ids
      \<and> length (map (\<lambda>m. map (take m) final) [Suc P..<L]) = L - P - 1"
proof -
  let ?st = "\<lparr>gs_input_ids = ids, gs_kwargs = kw,
              gs_unfinished = replicate (length ids) (1::64 word), gs_model = s0\<rparr>"
  have inv: "loop_invariant config (length ids) P ?st"
    using assms(1,2,4) by (simp add: loop_invariant_def list_all_iff)
  from stream_loop_max_length [OF assms(5) assms(3) inv, of "[]"] obtain final s' where
    run: "stream_loop config fwd (Some [e]) (max_length_criteria L) ?st []
          = Some (Finished ([] @ map (\<lambda>m. map (take m) final) [Suc P..<L]) final s')"
    and fin: "list_all (\<lambda>seq. length seq = L) final" "length final = length ids"
    and pre: "map (take P) final = gs_input_ids ?st" by blast
  have "stream_generate config fwd eos (max_length_criteria L) ids kw s0
        = Some (Finished (map (\<lambda>m. map (take m) final) [Suc P..<L]) final s')"
    using run by (simp add: stream_generate_def assms(6))
  then show ?thesis
    using fin pre by (intro exI [of _ final] exI [of _ s']) (simp add: list_all_iff)
qed

theorem max_length_generation_witness:
  "prompt3 \<noteq> []
   \<and> list_all (\<lambda>seq. length seq = 3 \<and> has_prompt_tokens single_layer_config seq) prompt3
   \<and> (3::nat) < 5 \<and> kwargs_usable no_kwargs \<and> eos_id_list (EosInt 2) = Some [2]
   \<and> (\<exists>final s'.
        stream_generate single_layer_config (constant_forward 7) (EosInt 2) (max_length_criteria 5)
          prompt3 no_kwargs ()
          = Some (Finished (map (\<lambda>m. map (take m) final) [Suc 3..<5]) final s')
        \<and> (\<forall>seq \<in> set final. length seq = 5)
        \<and> map (take 3) final = prompt3
        \<and> length (map (\<lambda>m. map (take m) final) [Suc 3..<5]) = 5 - 3 - 1)"
proof -
  have h1: "prompt3 \<noteq> []" by (simp add: prompt3_def)
  have h2: "\<forall>seq \<in> set prompt3. length seq = 3 \<and> has_prompt_tokens single_layer_config seq"
    by (simp add: prompt3_def has_prompt_tokens_def single_layer_config_def)
  have h3: "(3::nat) < 5" by simp
  have h4: "kwargs_usable no_kwargs" by (simp add: kwargs_usable_def no_kwargs_def)
  have h5: "\<forall>s inp. length (fst inp) = length prompt3
          \<longrightarrow> length (snd (constant_forward 7 (s::unit) inp)) = length prompt3
              \<and> 2 \<notin> set (snd (constant_forward 7 s inp))"
    by (auto simp add: constant_forward_def)
  have h6: "eos_id_list (EosInt 2) = Some [2]" by (simp add: eos_id_list_def)
  from max_length_generation [OF h1 h2 h3 h4 h5 h6, where ?s0.0 = "()"]
  obtain final s' where r:
    "stream_generate single_layer_config (constant_forward 7) (EosInt 2) (max_length_criteria 5)
          prompt3 no_kwargs ()
          = Some (Finished (map (\<lambda>m. map (take m) final) [Suc 3..<5]) final s')"
    "\<forall>seq \<in> set final. length seq = 5" "map (take 3) final = prompt3"
    "length (map (\<lambda>m. map (take m) final) [Suc 3..<5]) = 5 - 3 - 1"
    by blast
  then have "\<exists>final s'.
        stream_generate single_layer_config (constant_forward 7) (EosInt 2) (max_length_criteria 5)
          prompt3 no_kwargs ()
          = Some (Finished (map (\<lambda>m. map (take m) final) [Suc 3..<5]) final s')
        \<and> (\<forall>seq \<in> set final. length seq = 5)
        \<and> map (take 3) final = prompt3
        \<and> length (map (\<lambda>m. map (take m) final) [Suc 3..<5]) = 5 - 3 - 1"
    by blast
  moreover have "list_all (\<lambda>seq. length seq = 3 \<and> has_prompt_tokens single_layer_config seq) prompt3"
    using h2 by (simp add: list_all_iff)
  ultimately show ?thesis using h1 h3 h4 h6 by blast
qed

section \<open>The invalid-score processor\<close>











lemma valid_scores_unchanged:
  "\<not> list_ex (list_ex isnan) scores \<Longrightarrow> \<not> list_ex (list_ex isinf) scores \<Longrightarrow>
   InvalidScoreLogitsProcessor fmt scores = Inr scores"
  by (simp add: InvalidScoreLogitsProcessor_def)




section \<open>Rotary embedding\<close>

lemma arange_step2_even: "even dm \<Longrightarrow> arange_step2 dm = map (\<lambda>i. 2 * i) [0..<dm div 2]"
  by (auto simp add: arange_step2_def elim!: evenE)

lemma inv_freq_even:
  assumes "even dm"
  shows "inv_freq dm base = map (\<lambda>i. base powr (- (2 * real i / real dm))) [0..<dm div 2]"
  using assms by (simp add: inv_freq_def arange_step2_even powr_minus_divide o_def)

lemma rotary_emb_row:
  assumes "even dm" "p < max_seq_len"
  shows "rotary_emb dm base max_seq_len ! p =
     map (\<lambda>i. real p * base powr (- (2 * real i / real dm))) ([0..<dm div 2] @ [0..<dm div 2])"
  using assms by (simp add: rotary_emb_def inv_freq_even Let_def o_def)

lemma rotate_half_halves:
  "length x1 = length x2 \<Longrightarrow> rotate_half (x1 @ x2) = map uminus x2 @ x1"
  by (simp add: rotate_half_def chunk2_def)

lemma rotate_at_nth:
  assumes "j < length x" "length cos_row = length x" "length sin_row = length x"
  shows "rotate_at x cos_row sin_row ! j = x ! j * cos_row ! j + rotate_half x ! j * sin_row ! j"
proof -
  have "length (rotate_half x) = length x"
    by (simp add: rotate_half_def chunk2_def)
  then show ?thesis using assms by (simp add: rotate_at_def)
qed

text \<open>
  Claim C9. For an even \<open>dim\<close>, a positive \<open>base\<close> and a position \<open>p\<close> of the table,
  row \<open>p\<close> of the cosine table is
  \<open>[cos(p*theta_0), ..., cos(p*theta_{dim/2-1}), cos(p*theta_0), ...]\<close> with
  \<open>theta_i = base^(-2i/dim)\<close>, likewise for the sine table; \<open>rotate_half\<close> of two equal
  halves \<open>[x1, x2]\<close> is \<open>[-x2, x1]\<close>; and the rotation of query and key at position
  \<open>p\<close> is \<open>x * cos(p) + rotate_half(x) * sin(p)\<close>, elementwise.
\<close>

theorem rotary_embedding_definition:
  assumes "even dm" "0 < base" "p < max_seq_len"
  shows "cos_cached dm base max_seq_len ! p =
       map (\<lambda>i. cos (real p * base powr (- (2 * real i / real dm))))
         ([0..<dm div 2] @ [0..<dm div 2])
   \<and> sin_cached dm base max_seq_len ! p =
       map (\<lambda>i. sin (real p * base powr (- (2 * real i / real dm))))
         ([0..<dm div 2] @ [0..<dm div 2])
   \<and> length (cos_cached dm base max_seq_len ! p) = dm
   \<and> length (sin_cached dm base max_seq_len ! p) = dm
   \<and> (length x1 = length x2 \<longrightarrow> rotate_half (x1 @ x2) = map uminus x2 @ x1)
   \<and> apply_rotary_pos_emb_index q k (cos_cached dm base max_seq_len)
         (sin_cached dm base max_seq_len) p
       = Inr (rotate_at q (cos_cached dm base max_seq_len ! p) (sin_cached dm base max_seq_len ! p),
              rotate_at k (cos_cached dm base max_seq_len ! p) (sin_cached dm base max_seq_len ! p))
   \<and> (length q = dm \<longrightarrow> (\<forall>j < dm.
         rotate_at q (cos_cached dm base max_seq_len ! p) (sin_cached dm base max_seq_len ! p) ! j
           = q ! j * cos_cached dm base max_seq_len ! p ! j
             + rotate_half q ! j * sin_cached dm base max_seq_len ! p ! j))
   \<and> (length k = dm \<longrightarrow> (\<forall>j < dm.
         rotate_at k (cos_cached dm base max_seq_len ! p) (sin_cached dm base max_seq_len ! p) ! j
           = k ! j * cos_cached dm base max_seq_len ! p ! j
             + rotate_half k ! j * sin_cached dm base max_seq_len ! p ! j))"
proof -
  have len_tab: "length (rotary_emb dm base max_seq_len) = max_seq_len"
    by (simp add: rotary_emb_def)
  have row: "rotary_emb dm base max_seq_len ! p =
     map (\<lambda>i. real p * base powr (- (2 * real i / real dm))) ([0..<dm div 2] @ [0..<dm div 2])"
    using assms by (rule_tac rotary_emb_row)
  have c: "cos_cached dm base max_seq_len ! p =
       map (\<lambda>i. cos (real p * base powr (- (2 * real i / real dm))))
         ([0..<dm div 2] @ [0..<dm div 2])"
    using assms(3) len_tab by (simp add: cos_cached_def row o_def)
  have s: "sin_cached dm base max_seq_len ! p =
       map (\<lambda>i. sin (real p * base powr (- (2 * real i / real dm))))
         ([0..<dm div 2] @ [0..<dm div 2])"
    using assms(3) len_tab by (simp add: sin_cached_def row o_def)
  have half: "dm div 2 + dm div 2 = dm" using assms(1) by (auto elim!: evenE)
  have lc: "length (cos_cached dm base max_seq_len ! p) = dm" by (simp add: c half)
  have ls: "length (sin_cached dm base max_seq_len ! p) = dm" by (simp add: s half)
  have ap: "apply_rotary_pos_emb_index q k (cos_cached dm base max_seq_len)
         (sin_cached dm base max_seq_len) p
       = Inr (rotate_at q (cos_cached dm base max_seq_len ! p) (sin_cached dm base max_seq_len ! p),
              rotate_at k (cos_cached dm base max_seq_len ! p) (sin_cached dm base max_seq_len ! p))"
    using assms(3) len_tab
    by (simp add: apply_rotary_pos_emb_index_def cos_cached_def sin_cached_def)
  have el: "\<forall>j < dm.
         rotate_at v (cos_cached dm base max_seq_len ! p) (sin_cached dm base max_seq_len ! p) ! j
           = v ! j * cos_cached dm base max_seq_len ! p ! j
             + rotate_half v ! j * sin_cached dm base max_seq_len ! p ! j"
    if "length v = dm" for v
    using that lc ls rotate_at_nth [of _ v "cos_cached dm base max_seq_len ! p"
        "sin_cached dm base max_seq_len ! p"]
    by simp
  show ?thesis
    using c s lc ls ap el rotate_half_halves [of x1 x2] by blast
qed

theorem rotary_embedding_definition_witness:
  "even (2::nat) \<and> (0::real) < 10000 \<and> (1::nat) < 4
   \<and> cos_cached 2 10000 4 ! 1 = [cos 1, cos 1]
   \<and> sin_cached 2 10000 4 ! 1 = [sin 1, sin 1]
   \<and> length [3::real] = length [4::real]
   \<and> rotate_half ([3] @ [4]) = [- 4, 3]
   \<and> length [3, 4 :: real] = 2
   \<and> apply_rotary_pos_emb_index [3, 4] [5, 6] (cos_cached 2 10000 4) (sin_cached 2 10000 4) 1
       = Inr ([3 * cos 1 + - 4 * sin 1, 4 * cos 1 + 3 * sin 1],
              [5 * cos 1 + - 6 * sin 1, 6 * cos 1 + 5 * sin 1])"
proof -
  note t = rotary_embedding_definition [where dm = 2 and base = 10000 and p = 1
      and max_seq_len = 4 and ?x1.0 = "[3]" and ?x2.0 = "[4]" and q = "[3, 4]" and k = "[5, 6]"]
  have hyps: "even (2::nat)" "(0::real) < 10000" "(1::nat) < 4" by simp_all
  note r = t [OF hyps]
  have c: "cos_cached 2 10000 4 ! 1 = [cos 1, cos 1]"
    using r [THEN conjunct1] by simp
  have s: "sin_cached 2 10000 4 ! 1 = [sin 1, sin 1]"
    using r [THEN conjunct2, THEN conjunct1] by simp
  have h: "rotate_half ([3] @ [4]) = [- 4, 3]"
    using r [THEN conjunct2, THEN conjunct2, THEN conjunct2, THEN conjunct2, THEN conjunct1]
    by simp
  have rh: "rotate_half [3, 4] = [- 4, 3]" "rotate_half [5, 6] = [- 6, 5]"
    by (simp_all add: rotate_half_def chunk2_def)
  have a: "apply_rotary_pos_emb_index [3, 4] [5, 6] (cos_cached 2 10000 4) (sin_cached 2 10000 4) 1
       = Inr ([3 * cos 1 + - 4 * sin 1, 4 * cos 1 + 3 * sin 1],
              [5 * cos 1 + - 6 * sin 1, 6 * cos 1 + 5 * sin 1])"
    using r [THEN conjunct2, THEN conjunct2, THEN conjunct2, THEN conjunct2, THEN conjunct2,
        THEN conjunct1] c s
    by (simp add: rotate_at_def rh)
  show ?thesis using c s h a by simp
qed

end
